theory Spec2Isabelle
  imports Main "HOL-Library.AList"
begin

section \<open>Exquisite Corpse: the game session engine of \<^verbatim>\<open>exquisite_corpse_bot.py\<close>\<close>

text \<open>
  A shallow embedding of the bot's session engine.  Identities, channel ids and counters
  are Python integers (\<^typ>\<open>int\<close>); a \<^verbatim>\<open>datetime\<close> is the number of microseconds on
  the naive UTC clock, so that a difference of two of them is the \<^verbatim>\<open>timedelta\<close>.  A Python
  \<^verbatim>\<open>str\<close> is the list of its code points (\<^typ>\<open>nat list\<close>), so that every whitespace
  character of Unicode is there; only the status, which the code compares with four
  literals, is a \<^typ>\<open>string\<close>.  The dict \<^verbatim>\<open>bot.games\<close>, the only one the code iterates over, is an
  association list in insertion order (\<^const>\<open>AList.update\<close> is item assignment,
  \<^const>\<open>AList.delete\<close> is \<^verbatim>\<open>pop(k, None)\<close>); the two router dicts are maps.  The SQLite
  table is the list of its rows (nothing below depends on their order, which the
  \<^verbatim>\<open>SELECT\<close> leaves open).  Every handler is one atomic transition: sending a
  message has no effect on the state, and whether a channel or a user can be resolved is
  an input (\<open>get_channel\<close>, \<open>find_user\<close>).
\<close>

subsection \<open>Text helpers\<close>

type_synonym pystr = "nat list"

text \<open>A literal of the examples as a \<^verbatim>\<open>str\<close>.\<close>

definition str :: "string \<Rightarrow> pystr" where
  "str s = map of_char s"

text \<open>\<^verbatim>\<open>str.isspace\<close> on one code point: the characters that \<^verbatim>\<open>split()\<close> and \<^verbatim>\<open>strip()\<close>
  take as whitespace (U+0009 to U+000D, U+001C to U+0020, U+0085, U+00A0, U+1680, U+2000
  to U+200A, U+2028, U+2029, U+202F, U+205F, U+3000).\<close>

definition is_space :: "nat \<Rightarrow> bool" where
  "is_space c =
     (9 \<le> c \<and> c \<le> 13 \<or> 28 \<le> c \<and> c \<le> 32 \<or> c = 133 \<or> c = 160 \<or> c = 5760
      \<or> 8192 \<le> c \<and> c \<le> 8202 \<or> c = 8232 \<or> c = 8233 \<or> c = 8239 \<or> c = 8287
      \<or> c = 12288)"

text \<open>\<^verbatim>\<open>str.split()\<close>: the maximal runs of non-whitespace characters; \<open>cur\<close> is the token
  being read.\<close>

fun split_from :: "pystr \<Rightarrow> pystr \<Rightarrow> pystr list" where
  "split_from cur [] = (if cur = [] then [] else [cur])"
| "split_from cur (c # cs) =
     (if is_space c then (if cur = [] then split_from [] cs else cur # split_from [] cs)
      else split_from (cur @ [c]) cs)"

definition split :: "pystr \<Rightarrow> pystr list" where
  "split s = split_from [] s"

text \<open>\<^verbatim>\<open>str.strip()\<close>.\<close>

definition strip :: "pystr \<Rightarrow> pystr" where
  "strip s = rev (dropWhile is_space (rev (dropWhile is_space s)))"

text \<open>\<^verbatim>\<open>sep.join(xs)\<close>.\<close>

fun join :: "pystr \<Rightarrow> pystr list \<Rightarrow> pystr" where
  "join sep [] = []"
| "join sep [x] = x"
| "join sep (x # y # ys) = x @ sep @ join sep (y # ys)"

definition count_words :: "pystr \<Rightarrow> int" where
  "count_words text = int (length (split text))"

text \<open>Truthiness of an \<^verbatim>\<open>Optional[int]\<close> (\<^verbatim>\<open>if uid:\<close>): \<^verbatim>\<open>None\<close> and \<^verbatim>\<open>0\<close> are falsy.\<close>

fun truthy :: "int option \<Rightarrow> bool" where
  "truthy None = False"
| "truthy (Some x) = (x \<noteq> 0)"

text \<open>Truthiness of an \<^verbatim>\<open>Optional[str]\<close> (\<^verbatim>\<open>if words:\<close>): an empty text counts as no text.\<close>

fun given :: "pystr option \<Rightarrow> pystr option" where
  "given None = None"
| "given (Some w) = (if w = [] then None else Some w)"

subsection \<open>Game state\<close>

record Game =
  channel_id :: int
  starter_id :: int
  first_words :: pystr
  words_per_turn :: int
  total_lines :: int
  skip_init :: bool
  contributions :: "pystr list"
  contributors :: "int list"
  player_a :: "int option"
  player_b :: "int option"
  status :: string
  last_activity :: int
  current_turn :: int

text \<open>The dataclass constructor with its defaults, followed by \<^verbatim>\<open>__post_init__\<close>;
  \<open>now\<close> is what \<^verbatim>\<open>datetime.utcnow\<close> returns.\<close>

definition Game_init :: "int \<Rightarrow> int \<Rightarrow> int \<Rightarrow> pystr \<Rightarrow> int \<Rightarrow> int \<Rightarrow> bool \<Rightarrow> Game" where
  "Game_init now cid sid fw wpt nlines skip =
     (let g = \<lparr>channel_id = cid, starter_id = sid, first_words = fw, words_per_turn = wpt,
                total_lines = nlines, skip_init = skip, contributions = [], contributors = [],
                player_a = None, player_b = None, status = ''open'', last_activity = now,
                current_turn = 1\<rparr>
      in if skip then g
         else g\<lparr>contributions := [fw], contributors := [sid], player_a := Some sid\<rparr>)"

definition total_turns :: "Game \<Rightarrow> int" where
  "total_turns g = total_lines g * 2"

definition current_player :: "Game \<Rightarrow> int option" where
  "current_player g =
     (if status g = ''open'' then None
      else if current_turn g mod 2 = 0 then player_a g else player_b g)"

definition add_contribution :: "int \<Rightarrow> int \<Rightarrow> pystr \<Rightarrow> Game \<Rightarrow> Game" where
  "add_contribution now user_id words g =
     (let g1 = g\<lparr>contributions := contributions g @ [words],
                 contributors := contributors g @ [user_id],
                 current_turn := current_turn g + 1,
                 last_activity := now\<rparr>
      in if current_turn g1 \<ge> total_turns g1 then g1\<lparr>status := ''complete''\<rparr> else g1)"

datatype error = IndexError | OverflowError

text \<open>\<^verbatim>\<open>last_word\<close>: \<^verbatim>\<open>split()[-1]\<close> raises \<^verbatim>\<open>IndexError\<close> when the last contribution has
  no word, which a session of zero words per turn allows.\<close>

definition last_word :: "Game \<Rightarrow> error + pystr option" where
  "last_word g =
     (if contributions g = [] then Inr None
      else (case split (last (contributions g)) of
              [] \<Rightarrow> Inl IndexError
            | w # ws \<Rightarrow> Inr (Some (last (w # ws)))))"

text \<open>\<^verbatim>\<open>get_poem\<close>: the loop \<^verbatim>\<open>for i in range(0, len(contributions), 2)\<close>, from index \<open>i\<close> on.\<close>

function poem_lines :: "pystr list \<Rightarrow> nat \<Rightarrow> pystr list" where
  "poem_lines cs i =
     (if i < length cs then
        (if i + 1 < length cs then cs ! i @ str '' / '' @ cs ! (i + 1) else cs ! i)
          # poem_lines cs (i + 2)
      else [])"
  by pat_completeness auto
termination
  by (relation "measure (\<lambda>(cs, i). length cs - i)") auto

declare poem_lines.simps [simp del]

definition get_poem :: "Game \<Rightarrow> pystr" where
  "get_poem g = join [10] (poem_lines (contributions g) 0)"

text \<open>\<^verbatim>\<open>get_unique_contributors\<close>: the loop over \<open>contributors\<close> with the list \<open>seen\<close>.\<close>

fun unique_from :: "int list \<Rightarrow> int list \<Rightarrow> int list" where
  "unique_from seen [] = seen"
| "unique_from seen (uid # uids) =
     (if uid \<notin> set seen then unique_from (seen @ [uid]) uids else unique_from seen uids)"

definition get_unique_contributors :: "Game \<Rightarrow> int list" where
  "get_unique_contributors g = unique_from [] (contributors g)"

definition timeout_current_player :: "Game \<Rightarrow> Game" where
  "timeout_current_player g =
     (if current_turn g mod 2 = 0 then g\<lparr>player_a := None\<rparr> else g\<lparr>player_b := None\<rparr>)"

definition slot_is_open :: "Game \<Rightarrow> bool" where
  "slot_is_open g =
     (if status g = ''pending'' then False
      else if status g = ''open'' then True
      else if status g = ''active'' then
        (current_turn g mod 2 = 0 \<and> player_a g = None) \<or>
        (current_turn g mod 2 = 1 \<and> player_b g = None)
      else False)"

subsection \<open>Database\<close>

text \<open>One row of the table \<^verbatim>\<open>games\<close>; the TEXT columns hold what \<^verbatim>\<open>json.dumps\<close> and
  \<^verbatim>\<open>isoformat\<close> produced.  An INTEGER column has 64 bits; the ids and counters stored
  here are taken to fit, as Discord's do, so a row holds them as they are.\<close>

record row =
  col_channel_id :: int
  col_starter_id :: int
  col_first_words :: pystr
  col_words_per_turn :: int
  col_total_lines :: int
  col_contributions :: pystr
  col_contributors :: pystr
  col_player_a :: "int option"
  col_player_b :: "int option"
  col_status :: string
  col_last_activity :: pystr
  col_current_turn :: int

text \<open>What the handlers take from outside the repository: the transport's lookups
  (\<^verbatim>\<open>bot.get_channel\<close> returning a channel, \<^verbatim>\<open>get_user\<close>/\<^verbatim>\<open>fetch_user\<close> finding the user)
  and the library codecs of the TEXT columns (\<^verbatim>\<open>json.dumps\<close>, \<^verbatim>\<open>json.loads\<close> on the two
  lists, \<^verbatim>\<open>datetime.isoformat\<close>, \<^verbatim>\<open>datetime.fromisoformat\<close>).\<close>

record env =
  get_channel :: "int \<Rightarrow> bool"
  find_user :: "int \<Rightarrow> bool"
  dumps_strs :: "pystr list \<Rightarrow> pystr"
  loads_strs :: "pystr \<Rightarrow> pystr list"
  dumps_ints :: "int list \<Rightarrow> pystr"
  loads_ints :: "pystr \<Rightarrow> int list"
  isoformat :: "int \<Rightarrow> pystr"
  fromisoformat :: "pystr \<Rightarrow> int"

definition row_of :: "env \<Rightarrow> Game \<Rightarrow> row" where
  "row_of env g =
     \<lparr>col_channel_id = channel_id g, col_starter_id = starter_id g,
      col_first_words = first_words g, col_words_per_turn = words_per_turn g,
      col_total_lines = total_lines g,
      col_contributions = dumps_strs env (contributions g),
      col_contributors = dumps_ints env (contributors g),
      col_player_a = player_a g, col_player_b = player_b g, col_status = status g,
      col_last_activity = isoformat env (last_activity g),
      col_current_turn = current_turn g\<rparr>"

text \<open>\<^verbatim>\<open>INSERT OR REPLACE\<close> on the primary key \<^verbatim>\<open>channel_id\<close>: the row of that key, if any,
  goes and the new one is added.  This is the table after a save that succeeds, which is
  what the handlers below go on with.\<close>

definition save_game :: "env \<Rightarrow> Game \<Rightarrow> row list \<Rightarrow> row list" where
  "save_game env g tbl =
     filter (\<lambda>r. col_channel_id r \<noteq> channel_id g) tbl @ [row_of env g]"

text \<open>\<^verbatim>\<open>save_game\<close> with its failure: \<^verbatim>\<open>sqlite3\<close> raises \<^verbatim>\<open>OverflowError\<close> for a Python
  integer outside 64 bits and writes nothing; otherwise the table is the one above.\<close>

definition sqlite_int :: "int \<Rightarrow> bool" where
  "sqlite_int i = (- (2 ^ 63) \<le> i \<and> i < 2 ^ 63)"

definition sqlite_opt :: "int option \<Rightarrow> bool" where
  "sqlite_opt x = (case x of None \<Rightarrow> True | Some i \<Rightarrow> sqlite_int i)"

definition storable :: "Game \<Rightarrow> bool" where
  "storable g =
     (sqlite_int (channel_id g) \<and> sqlite_int (starter_id g) \<and> sqlite_int (words_per_turn g)
      \<and> sqlite_int (total_lines g) \<and> sqlite_opt (player_a g) \<and> sqlite_opt (player_b g)
      \<and> sqlite_int (current_turn g))"

definition try_save_game :: "env \<Rightarrow> Game \<Rightarrow> row list \<Rightarrow> error + row list" where
  "try_save_game env g tbl =
     (if storable g then Inr (save_game env g tbl) else Inl OverflowError)"

definition game_of_row :: "env \<Rightarrow> int \<Rightarrow> row \<Rightarrow> Game" where
  "game_of_row env now r =
     (Game_init now (col_channel_id r) (col_starter_id r) (col_first_words r)
        (col_words_per_turn r) (col_total_lines r) True)
       \<lparr>contributions := loads_strs env (col_contributions r),
        contributors := loads_ints env (col_contributors r),
        player_a := col_player_a r,
        player_b := col_player_b r,
        status := col_status r,
        last_activity := fromisoformat env (col_last_activity r),
        current_turn := col_current_turn r\<rparr>"

text \<open>\<^verbatim>\<open>SELECT * FROM games WHERE status != 'complete'\<close>, then the loop filling the dict.\<close>

definition load_all_games :: "env \<Rightarrow> int \<Rightarrow> row list \<Rightarrow> (int \<times> Game) list" where
  "load_all_games env now tbl =
     fold (\<lambda>r games. let game = game_of_row env now r
                      in AList.update (channel_id game) game games)
       (filter (\<lambda>r. col_status r \<noteq> ''complete'') tbl) []"

definition delete_game :: "int \<Rightarrow> row list \<Rightarrow> row list" where
  "delete_game cid tbl = filter (\<lambda>r. col_channel_id r \<noteq> cid) tbl"

subsection \<open>Bot state\<close>

text \<open>\<^verbatim>\<open>bot.games\<close>, \<^verbatim>\<open>bot.player_games\<close> and \<^verbatim>\<open>bot.pending_responses\<close>, together with the
  table in the database file.\<close>

record bot =
  games :: "(int \<times> Game) list"
  player_games :: "int \<rightharpoonup> int"
  pending_responses :: "int \<rightharpoonup> int"
  db :: "row list"

definition empty_bot :: bot where
  "empty_bot = \<lparr>games = [], player_games = Map.empty, pending_responses = Map.empty, db = []\<rparr>"

text \<open>What a handler answers; the wording of the messages is left out.\<close>

datatype reply =
    AlreadyInGame | ChannelBusy | WordCountMismatch int int | Started | StartedPending
  | NoActiveGame | WaitingForStarter | InOtherGame int | SlotUnavailable | SelfPlay
  | Joined | TakesOver | JoinedCheckDMs
  | StatusOwn bool | StatusChannel | StatusNone
  | NotInGame | LeftGame
  | Ignored | NoPendingTurn | NoPendingTurnNow | LockedIn | Received

text \<open>The body of the cleanup loop of \<^verbatim>\<open>post_completed_poem\<close> for one \<open>uid\<close>.\<close>

definition forget_player :: "int option \<Rightarrow> bot \<Rightarrow> bot" where
  "forget_player uid b =
     (case uid of
        None \<Rightarrow> b
      | Some u \<Rightarrow>
          if u = 0 then b
          else b\<lparr>player_games := (player_games b)(u := None),
                 pending_responses := (pending_responses b)(u := None)\<rparr>)"

definition prompt_next_player :: "env \<Rightarrow> Game \<Rightarrow> bot \<Rightarrow> bot" where
  "prompt_next_player env game b =
     (case current_player game of
        None \<Rightarrow> b
      | Some player_id \<Rightarrow>
          if player_id = 0 then b
          else if find_user env player_id then
            b\<lparr>pending_responses := (pending_responses b)(player_id \<mapsto> channel_id game)\<rparr>
          else b)"

definition post_completed_poem :: "env \<Rightarrow> Game \<Rightarrow> bot \<Rightarrow> bot" where
  "post_completed_poem env game b =
     (if get_channel env (channel_id game) then
        (let b1 = fold forget_player [player_a game, player_b game] b
         in b1\<lparr>games := AList.delete (channel_id game) (games b1),
                db := delete_game (channel_id game) (db b1)\<rparr>)
      else b)"

text \<open>The tail shared by every accepted contribution.\<close>

definition finish_turn :: "env \<Rightarrow> Game \<Rightarrow> bot \<Rightarrow> bot" where
  "finish_turn env game b =
     (if status game = ''complete'' then post_completed_poem env game b
      else prompt_next_player env game b)"

subsection \<open>Commands\<close>

definition cmd_start ::
  "env \<Rightarrow> int \<Rightarrow> int \<Rightarrow> int \<Rightarrow> pystr option \<Rightarrow> int \<Rightarrow> int \<Rightarrow> bot \<Rightarrow> reply \<times> bot" where
  "cmd_start env now user ch words lines wordcount b =
     (if player_games b user \<noteq> None then (AlreadyInGame, b)
      else if (case map_of (games b) ch of None \<Rightarrow> False
               | Some existing \<Rightarrow> status existing \<noteq> ''complete'') then (ChannelBusy, b)
      else
        (case given words of
           Some w \<Rightarrow>
             if count_words w \<noteq> wordcount then (WordCountMismatch wordcount (count_words w), b)
             else
               (let game = Game_init now ch user w wordcount lines False
                in (Started,
                    b\<lparr>games := AList.update ch game (games b),
                      player_games := (player_games b)(user \<mapsto> ch),
                      db := save_game env game (db b)\<rparr>))
         | None \<Rightarrow>
             (let game = (Game_init now ch user [] wordcount lines True)
                    \<lparr>contributions := [], contributors := [], player_a := Some user,
                     status := ''pending''\<rparr>
              in (StartedPending,
                  b\<lparr>games := AList.update ch game (games b),
                    player_games := (player_games b)(user \<mapsto> ch),
                    pending_responses := (pending_responses b)(user \<mapsto> ch),
                    db := save_game env game (db b)\<rparr>))))"

text \<open>The check of \<^verbatim>\<open>cmd_join\<close> that the player is in another game, and the channel of
  that game (\<^verbatim>\<open>bot.player_games[interaction.user.id]\<close>, read only when the key is there).\<close>

definition in_other_game :: "bot \<Rightarrow> int \<Rightarrow> int \<Rightarrow> bool" where
  "in_other_game b user ch =
     (case player_games b user of None \<Rightarrow> False | Some other \<Rightarrow> other \<noteq> ch)"

definition other_channel :: "bot \<Rightarrow> int \<Rightarrow> int" where
  "other_channel b user = (case player_games b user of None \<Rightarrow> 0 | Some other \<Rightarrow> other)"

text \<open>The slot that \<^verbatim>\<open>cmd_join\<close> assigns in a session that is not \<^verbatim>\<open>open\<close>.\<close>

definition take_slot :: "int \<Rightarrow> Game \<Rightarrow> Game" where
  "take_slot user g =
     (if current_turn g mod 2 = 0 then g\<lparr>player_a := Some user\<rparr>
      else g\<lparr>player_b := Some user\<rparr>)"

definition cmd_join :: "env \<Rightarrow> int \<Rightarrow> int \<Rightarrow> int \<Rightarrow> pystr option \<Rightarrow> bot \<Rightarrow> reply \<times> bot" where
  "cmd_join env now user ch words b =
     (case map_of (games b) ch of
        None \<Rightarrow> (NoActiveGame, b)
      | Some game \<Rightarrow>
          if status game = ''complete'' then (NoActiveGame, b)
          else if status game = ''pending'' then (WaitingForStarter, b)
          else if in_other_game b user ch then (InOtherGame (other_channel b user), b)
          else if \<not> slot_is_open game then (SlotUnavailable, b)
          else if status game = ''open'' \<and> Some user = player_a game then (SelfPlay, b)
          else
            (case given words of
               Some w \<Rightarrow>
                 if count_words w \<noteq> words_per_turn game
                 then (WordCountMismatch (words_per_turn game) (count_words w), b)
                 else if status game = ''open'' then
                   (let game1 = add_contribution now user w
                                  (game\<lparr>player_b := Some user, status := ''active''\<rparr>);
                        b1 = b\<lparr>games := AList.update ch game1 (games b),
                               player_games := (player_games b)(user \<mapsto> ch),
                               db := save_game env game1 (db b)\<rparr>
                    in (Joined, finish_turn env game1 b1))
                 else
                   (let game1 = add_contribution now user w (take_slot user game);
                        b1 = b\<lparr>games := AList.update ch game1 (games b),
                               player_games := (player_games b)(user \<mapsto> ch),
                               db := save_game env game1 (db b)\<rparr>
                    in (TakesOver, finish_turn env game1 b1))
             | None \<Rightarrow>
                 (let game1 = (if status game = ''open''
                               then game\<lparr>player_b := Some user, status := ''active''\<rparr>
                               else take_slot user game)
                  in (JoinedCheckDMs,
                      b\<lparr>games := AList.update ch game1 (games b),
                        player_games := (player_games b)(user \<mapsto> ch),
                        pending_responses := (pending_responses b)(user \<mapsto> ch),
                        db := save_game env game1 (db b)\<rparr>))))"

definition cmd_status :: "int \<Rightarrow> int \<Rightarrow> bot \<Rightarrow> reply \<times> bot" where
  "cmd_status user ch b =
     (case (case player_games b user of None \<Rightarrow> None | Some c \<Rightarrow> map_of (games b) c) of
        Some game \<Rightarrow> (StatusOwn (current_player game = Some user), b)
      | None \<Rightarrow>
          (case map_of (games b) ch of
             None \<Rightarrow> (StatusNone, b)
           | Some game \<Rightarrow>
               if status game \<noteq> ''complete'' then (StatusChannel, b) else (StatusNone, b)))"

text \<open>What \<^verbatim>\<open>cmd_abandon\<close> does to the session it finds.\<close>

definition leave_slots :: "int \<Rightarrow> Game \<Rightarrow> Game" where
  "leave_slots user g =
     (let g1 = (if player_a g = Some user then g\<lparr>player_a := None\<rparr> else g)
      in if player_b g1 = Some user then g1\<lparr>player_b := None\<rparr> else g1)"

definition cmd_abandon :: "env \<Rightarrow> int \<Rightarrow> bot \<Rightarrow> reply \<times> bot" where
  "cmd_abandon env user b =
     (case player_games b user of
        None \<Rightarrow> (NotInGame, b)
      | Some ch \<Rightarrow>
          (let b1 = b\<lparr>player_games := (player_games b)(user := None),
                      pending_responses := (pending_responses b)(user := None)\<rparr>
           in case map_of (games b1) ch of
                None \<Rightarrow> (LeftGame, b1)
              | Some game \<Rightarrow>
                  (let game1 = leave_slots user game
                   in (LeftGame,
                       b1\<lparr>games := AList.update ch game1 (games b1),
                          db := save_game env game1 (db b1)\<rparr>))))"

subsection \<open>Direct messages\<close>

record message =
  author_id :: int
  author_bot :: bool
  in_guild :: bool
  content :: pystr

definition on_message :: "env \<Rightarrow> int \<Rightarrow> message \<Rightarrow> bot \<Rightarrow> reply \<times> bot" where
  "on_message env now msg b =
     (if author_bot msg then (Ignored, b)
      else if in_guild msg then (Ignored, b)
      else
        (case pending_responses b (author_id msg) of
           None \<Rightarrow> (NoPendingTurn, b)
         | Some ch \<Rightarrow>
             (case map_of (games b) ch of
                None \<Rightarrow>
                  (NoPendingTurnNow,
                   b\<lparr>pending_responses := (pending_responses b)(author_id msg := None)\<rparr>)
              | Some game \<Rightarrow>
                  (let words = strip (content msg) in
                   if count_words words \<noteq> words_per_turn game
                   then (WordCountMismatch (words_per_turn game) (count_words words), b)
                   else if status game = ''pending'' then
                     (let game1 = game\<lparr>first_words := words, contributions := [words],
                                       contributors := [author_id msg], status := ''open'',
                                       last_activity := now\<rparr>
                      in (LockedIn,
                          b\<lparr>pending_responses := (pending_responses b)(author_id msg := None),
                            games := AList.update ch game1 (games b),
                            db := save_game env game1 (db b)\<rparr>))
                   else if current_player game \<noteq> Some (author_id msg) then
                     (NoPendingTurnNow,
                      b\<lparr>pending_responses := (pending_responses b)(author_id msg := None)\<rparr>)
                   else
                     (let game1 = add_contribution now (author_id msg) words game;
                          b1 = b\<lparr>pending_responses :=
                                   (pending_responses b)(author_id msg := None),
                                 games := AList.update ch game1 (games b),
                                 db := save_game env game1 (db b)\<rparr>
                      in (Received, finish_turn env game1 b1))))))"

subsection \<open>Timeout monitor\<close>

text \<open>\<^verbatim>\<open>timedelta(hours=2)\<close>, in microseconds.\<close>

definition timeout :: int where
  "timeout = 7200000000"

text \<open>The body of the loop of \<^verbatim>\<open>timeout_checker\<close> for the entry of \<open>ch\<close>: whether it raises,
  and the state it leaves.  The notice is formatted, with \<^verbatim>\<open>game.last_word\<close>, only when the
  channel resolves and after the session is mutated, saved and unbound; nothing catches the
  \<^verbatim>\<open>IndexError\<close> of \<^verbatim>\<open>last_word\<close>.\<close>

definition timeout_step :: "env \<Rightarrow> int \<Rightarrow> int \<Rightarrow> bot \<Rightarrow> bool \<times> bot" where
  "timeout_step env now ch b =
     (case map_of (games b) ch of
        None \<Rightarrow> (False, b)
      | Some game \<Rightarrow>
          if status game \<noteq> ''active'' then (False, b)
          else if now - last_activity game \<le> timeout then (False, b)
          else
            (case current_player game of
               None \<Rightarrow> (False, b)
             | Some timed_out_player \<Rightarrow>
                 if timed_out_player = 0 then (False, b)
                 else
                   (let game1 = timeout_current_player game
                    in (get_channel env ch \<and> last_word game1 = Inl IndexError,
                        b\<lparr>games := AList.update ch game1 (games b),
                          db := save_game env game1 (db b),
                          player_games := (player_games b)(timed_out_player := None),
                          pending_responses :=
                            (pending_responses b)(timed_out_player := None)\<rparr>))))"

text \<open>The loop: an iteration that raises ends it, and the entries after it are not
  visited.\<close>

fun timeout_loop :: "env \<Rightarrow> int \<Rightarrow> int list \<Rightarrow> bot \<Rightarrow> bool \<times> bot" where
  "timeout_loop env now [] b = (False, b)"
| "timeout_loop env now (ch # chs) b =
     (case timeout_step env now ch b of
        (True, b1) \<Rightarrow> (True, b1)
      | (False, b1) \<Rightarrow> timeout_loop env now chs b1)"

text \<open>The loop runs over a snapshot of the entries of the dict.  No iteration adds or
  removes a key and each one mutates only its own session object, so the session that
  the body finds under \<open>ch\<close> when its turn comes is the one of the snapshot.\<close>

definition timeout_checker :: "env \<Rightarrow> int \<Rightarrow> bot \<Rightarrow> bool \<times> bot" where
  "timeout_checker env now b = timeout_loop env now (map fst (games b)) b"

text \<open>What the loop body of \<^verbatim>\<open>timeout_checker\<close> leaves of a session: the test it makes
  and the one mutation it applies.\<close>

definition swept :: "int \<Rightarrow> Game \<Rightarrow> Game" where
  "swept now g =
     (if status g = ''active'' \<and> timeout < now - last_activity g \<and> truthy (current_player g)
      then timeout_current_player g else g)"

subsection \<open>Events\<close>

text \<open>The inputs of the engine: the four actions of the command \<^verbatim>\<open>/corpse\<close> (an unknown
  action changes nothing), a message, and a run of the timeout monitor.\<close>

datatype event =
    Start int int "pystr option" int int
  | Join int int "pystr option"
  | Status int int
  | Abandon int
  | Message message
  | Sweep

fun step :: "env \<Rightarrow> int \<Rightarrow> event \<Rightarrow> bot \<Rightarrow> bot" where
  "step env now (Start user ch words lines wordcount) b =
     snd (cmd_start env now user ch words lines wordcount b)"
| "step env now (Join user ch words) b = snd (cmd_join env now user ch words b)"
| "step env now (Status user ch) b = snd (cmd_status user ch b)"
| "step env now (Abandon user) b = snd (cmd_abandon env user b)"
| "step env now (Message msg) b = snd (on_message env now msg b)"
| "step env now Sweep b = snd (timeout_checker env now b)"

subsection \<open>An environment for the examples\<close>

text \<open>Codecs for the examples.  On lists of text made of printable ASCII characters and on
  lists of integers they write what \<^verbatim>\<open>json.dumps\<close> writes and read it back; on a naive
  \<^verbatim>\<open>datetime\<close> of the years 1 to 9999 they write what \<^verbatim>\<open>isoformat\<close> writes and read it
  back.\<close>

function digits :: "nat \<Rightarrow> pystr" where
  "digits n = (if n < 10 then [48 + n] else digits (n div 10) @ [48 + n mod 10])"
  by pat_completeness auto
termination
  by (relation "measure id") auto

declare digits.simps [simp del]

definition pad :: "nat \<Rightarrow> nat \<Rightarrow> pystr" where
  "pad w n = replicate (w - length (digits n)) 48 @ digits n"

definition number :: "pystr \<Rightarrow> nat" where
  "number s = foldl (\<lambda>a c. 10 * a + (c - 48)) 0 s"

definition show_int :: "int \<Rightarrow> pystr" where
  "show_int i = (if i < 0 then 45 # digits (nat (- i)) else digits (nat i))"

definition quote :: "pystr \<Rightarrow> pystr" where
  "quote s = 34 # concat (map (\<lambda>c. if c = 34 \<or> c = 92 then [92, c] else [c]) s) @ [34]"

definition json_dumps_strs :: "pystr list \<Rightarrow> pystr" where
  "json_dumps_strs xs = 91 # join (str '', '') (map quote xs) @ [93]"

definition json_dumps_ints :: "int list \<Rightarrow> pystr" where
  "json_dumps_ints xs = 91 # join (str '', '') (map show_int xs) @ [93]"

text \<open>Reading a list of strings: \<open>inside\<close> says whether a string is open, \<open>cur\<close> is what
  has been read of it.\<close>

fun parse_strs :: "bool \<Rightarrow> pystr \<Rightarrow> pystr list \<Rightarrow> pystr \<Rightarrow> pystr list" where
  "parse_strs inside cur acc [] = acc"
| "parse_strs True cur acc (c # cs) =
     (if c = 92 then (case cs of [] \<Rightarrow> acc | d # ds \<Rightarrow> parse_strs True (cur @ [d]) acc ds)
      else if c = 34 then parse_strs False [] (acc @ [cur]) cs
      else parse_strs True (cur @ [c]) acc cs)"
| "parse_strs False cur acc (c # cs) =
     (if c = 34 then parse_strs True [] acc cs else parse_strs False cur acc cs)"

text \<open>Reading a list of integers: \<open>neg\<close> is the sign read, \<open>cur\<close> the digits read.\<close>

fun parse_ints :: "bool \<Rightarrow> nat option \<Rightarrow> int list \<Rightarrow> pystr \<Rightarrow> int list" where
  "parse_ints neg cur acc [] = acc"
| "parse_ints neg cur acc (c # cs) =
     (if c = 45 then parse_ints True cur acc cs
      else if 48 \<le> c \<and> c \<le> 57 then
        parse_ints neg (Some (10 * (case cur of None \<Rightarrow> 0 | Some n \<Rightarrow> n) + (c - 48))) acc cs
      else (case cur of
              None \<Rightarrow> parse_ints False None acc cs
            | Some n \<Rightarrow> parse_ints False None (acc @ [if neg then - int n else int n]) cs))"

text \<open>The proleptic Gregorian calendar: the date of a day counted from 1970-01-01, and
  back.\<close>

definition civil_of_days :: "int \<Rightarrow> int \<times> int \<times> int" where
  "civil_of_days z0 =
     (let z = z0 + 719468;
          era = z div 146097;
          doe = z - era * 146097;
          yoe = (doe - doe div 1460 + doe div 36524 - doe div 146096) div 365;
          doy = doe - (365 * yoe + yoe div 4 - yoe div 100);
          mp = (5 * doy + 2) div 153;
          d = doy - (153 * mp + 2) div 5 + 1;
          m = (if mp < 10 then mp + 3 else mp - 9);
          y = yoe + era * 400 + (if m \<le> 2 then 1 else 0)
      in (y, m, d))"

definition days_of_civil :: "int \<Rightarrow> int \<Rightarrow> int \<Rightarrow> int" where
  "days_of_civil y0 m d =
     (let y = (if m \<le> 2 then y0 - 1 else y0);
          era = y div 400;
          yoe = y - era * 400;
          doy = (153 * (if 2 < m then m - 3 else m + 9) + 2) div 5 + d - 1;
          doe = yoe * 365 + yoe div 4 - yoe div 100 + doy
      in era * 146097 + doe - 719468)"

definition iso_format :: "int \<Rightarrow> pystr" where
  "iso_format t =
     (let (y, m, d) = civil_of_days (t div 86400000000);
          r = t mod 86400000000;
          us = r mod 1000000
      in pad 4 (nat y) @ [45] @ pad 2 (nat m) @ [45] @ pad 2 (nat d) @ [84]
         @ pad 2 (nat (r div 3600000000)) @ [58] @ pad 2 (nat (r div 60000000 mod 60)) @ [58]
         @ pad 2 (nat (r div 1000000 mod 60))
         @ (if us = 0 then [] else 46 # pad 6 (nat us)))"

definition iso_parse :: "pystr \<Rightarrow> int" where
  "iso_parse s =
     (let field = (\<lambda>i n. int (number (take n (drop i s))))
      in days_of_civil (field 0 4) (field 5 2) (field 8 2) * 86400000000
         + field 11 2 * 3600000000 + field 14 2 * 60000000 + field 17 2 * 1000000
         + (if 19 < length s then field 20 6 else 0))"

text \<open>Every channel and every user resolves.\<close>

definition sample_env :: env where
  "sample_env =
     \<lparr>get_channel = (\<lambda>_. True), find_user = (\<lambda>_. True),
      dumps_strs = json_dumps_strs, loads_strs = parse_strs False [] [],
      dumps_ints = json_dumps_ints, loads_ints = parse_ints False None [],
      isoformat = iso_format, fromisoformat = iso_parse\<rparr>"

text \<open>The state of the examples: one session under its channel id, saved, and the two
  router dicts.\<close>

definition bot_with :: "Game \<Rightarrow> (int \<rightharpoonup> int) \<Rightarrow> (int \<rightharpoonup> int) \<Rightarrow> bot" where
  "bot_with g bound awaiting =
     \<lparr>games = [(channel_id g, g)], player_games = bound, pending_responses = awaiting,
      db = [row_of sample_env g]\<rparr>"

subsection \<open>Notions for the statements about one step\<close>

text \<open>Who acts in an event, and the text the event submits (what \<^verbatim>\<open>on_message\<close> keeps of a
  message is its stripped content).\<close>

fun actor :: "event \<Rightarrow> int" where
  "actor (Start user ch words lines wordcount) = user"
| "actor (Join user ch words) = user"
| "actor (Status user ch) = user"
| "actor (Abandon user) = user"
| "actor (Message msg) = author_id msg"
| "actor Sweep = 0"

fun submitted :: "event \<Rightarrow> pystr" where
  "submitted (Start user ch words lines wordcount) = (case words of None \<Rightarrow> [] | Some w \<Rightarrow> w)"
| "submitted (Join user ch words) = (case words of None \<Rightarrow> [] | Some w \<Rightarrow> w)"
| "submitted (Message msg) = strip (content msg)"
| "submitted _ = []"

text \<open>A session as \<^verbatim>\<open>cmd_start\<close> creates it: with the caller's words, or pending.\<close>

definition fresh :: "int \<Rightarrow> pystr \<Rightarrow> Game \<Rightarrow> bool" where
  "fresh u w g' =
     (current_turn g' = 1 \<and>
      (status g' = ''open'' \<and> contributions g' = [w] \<and> contributors g' = [u]
       \<or> status g' = ''pending'' \<and> contributions g' = [] \<and> contributors g' = []))"

text \<open>How one handler can change a session \<open>g\<close> into \<open>g'\<close>: the slots and the activation
  of an open session only; the first words of a pending session; or one more contribution,
  after which the session is complete exactly when the turn counter has reached the total.\<close>

definition evolved :: "int \<Rightarrow> pystr \<Rightarrow> Game \<Rightarrow> Game \<Rightarrow> bool" where
  "evolved u w g g' =
     (total_lines g' = total_lines g \<and>
      (contributions g' = contributions g \<and> contributors g' = contributors g
         \<and> current_turn g' = current_turn g
         \<and> (status g' = status g \<or> status g = ''open'' \<and> status g' = ''active'')
       \<or> status g = ''pending'' \<and> status g' = ''open'' \<and> contributions g' = [w]
         \<and> contributors g' = [u] \<and> current_turn g' = current_turn g
       \<or> contributions g' = contributions g @ [w] \<and> contributors g' = contributors g @ [u]
         \<and> current_turn g' = current_turn g + 1
         \<and> (if total_turns g' \<le> current_turn g' then status g' = ''complete''
             else status g' = status g \<or> status g = ''open'' \<and> status g' = ''active'')))"

text \<open>The states that the handlers produce from the empty bot.\<close>

inductive reachable :: "bot \<Rightarrow> bool" where
  reachable_empty: "reachable empty_bot"
| reachable_step: "reachable b \<Longrightarrow> reachable (step env now ev b)"

section \<open>Properties\<close>

subsection \<open>Examples\<close>

lemma example_word_counts:
  "count_words (str ''a b c d e f'') = 6" "count_words (str ''g h i j k l'') = 6"
  "count_words (str ''m n o p q r'') = 6" "count_words (str ''a b c d e'') = 5"
  by (simp_all add: count_words_def split_def is_space_def str_def)

lemma example_texts:
  "str ''a b c d e f'' \<noteq> []" "str ''g h i j k l'' \<noteq> []" "str ''m n o p q r'' \<noteq> []"
  "str ''a b c d e'' \<noteq> []"
  "strip (str ''g h i j k l'') = str ''g h i j k l''"
  "strip (str ''m n o p q r'') = str ''m n o p q r''"
  "strip (str ''a b c d e'') = str ''a b c d e''"
  by (simp_all add: str_def strip_def is_space_def)

text \<open>A run from the empty bot: identity 10 starts a session of four lines in channel 1
  with six words; identity 20 joins without words and sends six words as a direct message;
  then identity 10 abandons.  The examples below start from the states of this run.\<close>

lemma example_run:
  "step sample_env 3 (Start 10 1 (Some (str ''a b c d e f'')) 4 6) empty_bot
     = bot_with (Game_init 3 1 10 (str ''a b c d e f'') 6 4 False) [10 \<mapsto> 1] Map.empty"
  "step sample_env 4 (Join 20 1 None)
       (bot_with (Game_init 3 1 10 (str ''a b c d e f'') 6 4 False) [10 \<mapsto> 1] Map.empty)
     = bot_with ((Game_init 3 1 10 (str ''a b c d e f'') 6 4 False)
                   \<lparr>player_b := Some 20, status := ''active''\<rparr>)
         [10 \<mapsto> 1, 20 \<mapsto> 1] [20 \<mapsto> 1]"
  "step sample_env 5
       (Message \<lparr>author_id = 20, author_bot = False, in_guild = False, content = (str ''g h i j k l'')\<rparr>)
       (bot_with ((Game_init 3 1 10 (str ''a b c d e f'') 6 4 False)
                   \<lparr>player_b := Some 20, status := ''active''\<rparr>)
         [10 \<mapsto> 1, 20 \<mapsto> 1] [20 \<mapsto> 1])
     = bot_with ((Game_init 3 1 10 (str ''a b c d e f'') 6 4 False)
                   \<lparr>contributions := [(str ''a b c d e f''), (str ''g h i j k l'')], contributors := [10, 20],
                    player_b := Some 20, status := ''active'', last_activity := 5,
                    current_turn := 2\<rparr>)
         [10 \<mapsto> 1, 20 \<mapsto> 1] [10 \<mapsto> 1]"
  "step sample_env 6 (Abandon 10)
       (bot_with ((Game_init 3 1 10 (str ''a b c d e f'') 6 4 False)
                   \<lparr>contributions := [(str ''a b c d e f''), (str ''g h i j k l'')], contributors := [10, 20],
                    player_b := Some 20, status := ''active'', last_activity := 5,
                    current_turn := 2\<rparr>)
         [10 \<mapsto> 1, 20 \<mapsto> 1] [10 \<mapsto> 1])
     = bot_with ((Game_init 3 1 10 (str ''a b c d e f'') 6 4 False)
                   \<lparr>contributions := [(str ''a b c d e f''), (str ''g h i j k l'')], contributors := [10, 20],
                    player_a := None, player_b := Some 20, status := ''active'',
                    last_activity := 5, current_turn := 2\<rparr>)
         [20 \<mapsto> 1] Map.empty"
     apply (simp add: cmd_start_def empty_bot_def bot_with_def Game_init_def example_word_counts example_texts
        save_game_def row_of_def Let_def)
    apply (simp add: cmd_join_def bot_with_def Game_init_def slot_is_open_def in_other_game_def
        save_game_def row_of_def Let_def fun_upd_twist)
   apply (simp add: on_message_def bot_with_def Game_init_def example_texts
        example_word_counts example_texts current_player_def add_contribution_def total_turns_def finish_turn_def
        prompt_next_player_def sample_env_def save_game_def row_of_def Let_def)
  apply (simp add: cmd_abandon_def bot_with_def Game_init_def leave_slots_def save_game_def
        row_of_def Let_def)
  done

subsection \<open>Poem assembly\<close>

lemma poem_lines_index:
  "poem_lines cs i =
     map (\<lambda>k. if i + 2 * k + 1 < length cs then cs ! (i + 2 * k) @ str '' / '' @ cs ! (i + 2 * k + 1)
               else cs ! (i + 2 * k))
       [0..<(length cs + 1 - i) div 2]"
proof (induction cs i rule: poem_lines.induct)
  case (1 cs i)
  let ?line = "\<lambda>j. if j + 1 < length cs then cs ! j @ str '' / '' @ cs ! (j + 1) else cs ! j"
  show ?case
  proof (cases "i < length cs")
    case False
    then show ?thesis by (simp add: poem_lines.simps [of cs i])
  next
    case True
    define m where "m = (length cs + 1 - (i + 2)) div 2"
    have m: "(length cs + 1 - i) div 2 = Suc m"
      using True unfolding m_def by arith
    have "poem_lines cs i = ?line i # poem_lines cs (i + 2)"
      using True by (simp add: poem_lines.simps [of cs i])
    also have "poem_lines cs (i + 2) = map (\<lambda>k. ?line (i + 2 + 2 * k)) [0..<m]"
      using "1.IH" [OF True] by (simp add: m_def add.assoc)
    also have "?line i # map (\<lambda>k. ?line (i + 2 + 2 * k)) [0..<m]
        = map (\<lambda>k. ?line (i + 2 * k)) [0..<Suc m]"
      by (simp add: upt_conv_Cons map_Suc_upt [symmetric] del: upt_Suc)
    finally show ?thesis by (simp only: m add.assoc)
  qed
qed

lemma join_lines: "join sep (l # ls) = l @ concat (map ((@) sep) ls)"
  by (induction ls arbitrary: l) simp_all

text \<open>
  C8.  The poem has one line for every index pair \<open>(2k, 2k+1)\<close> of the contributions, in
  order: the two contributions with \<^verbatim>\<open>" / "\<close> between them, or the contribution at \<open>2k\<close>
  alone when it is the unpaired last one.  The poem is the first line followed by every
  later line with a line break in front of it (and empty when there is no contribution).
  On the contributions \<^verbatim>\<open>["a b c d e f", "g h i j k l"]\<close> it is exactly
  \<^verbatim>\<open>"a b c d e f / g h i j k l"\<close>, with no line break and nothing after it; on three and
  on four contributions it has two lines.
\<close>

theorem get_poem_pairs:
  "get_poem g =
     (case map (\<lambda>k. if 2 * k + 1 < length (contributions g)
                     then contributions g ! (2 * k) @ [32, 47, 32] @ contributions g ! (2 * k + 1)
                     else contributions g ! (2 * k))
             [0..<(length (contributions g) + 1) div 2] of
        [] \<Rightarrow> []
      | l # ls \<Rightarrow> l @ concat (map (\<lambda>x. 10 # x) ls))
   \<and> get_poem (g\<lparr>contributions := [str ''a b c d e f'', str ''g h i j k l'']\<rparr>)
       = str ''a b c d e f / g h i j k l''
   \<and> get_poem (g\<lparr>contributions := [str ''a b'', str ''c d'', str ''e f'']\<rparr>)
       = str ''a b / c d'' @ [10] @ str ''e f''
   \<and> get_poem (g\<lparr>contributions := [str ''a b'', str ''c d'', str ''e f'', str ''g h'']\<rparr>)
       = str ''a b / c d'' @ [10] @ str ''e f / g h''"
proof -
  have sep: "str '' / '' = [32, 47, 32]"
    by (simp add: str_def)
  have br: "(@) [10::nat] = (#) 10"
    by (intro ext) simp
  have "get_poem g =
     (case map (\<lambda>k. if 2 * k + 1 < length (contributions g)
                     then contributions g ! (2 * k) @ [32, 47, 32] @ contributions g ! (2 * k + 1)
                     else contributions g ! (2 * k))
             [0..<(length (contributions g) + 1) div 2] of
        [] \<Rightarrow> []
      | l # ls \<Rightarrow> l @ concat (map (\<lambda>x. 10 # x) ls))" for g
    by (simp add: get_poem_def poem_lines_index sep join_lines br split: list.split cong: if_cong)
  then show ?thesis
    by (simp add: str_def upt_conv_Cons)
qed

subsection \<open>Persistence\<close>

lemma game_of_row_of:
  assumes "loads_strs env (dumps_strs env (contributions g)) = contributions g"
    and "loads_ints env (dumps_ints env (contributors g)) = contributors g"
    and "fromisoformat env (isoformat env (last_activity g)) = last_activity g"
  shows "game_of_row env now (row_of env g) = g\<lparr>skip_init := True\<rparr>"
  using assms by (simp add: game_of_row_def row_of_def Game_init_def)

text \<open>
  C7.  Let \<open>g\<close> be a session whose status is not \<^verbatim>\<open>complete\<close>, whose integers SQLite can
  store (Discord ids and the counters are such; for others \<^verbatim>\<open>save_game\<close> raises and writes
  nothing), and let the library codecs read back what they wrote for the two lists and the
  timestamp of \<open>g\<close>.  Then \<^verbatim>\<open>save_game(g)\<close> succeeds on any table, and afterwards
  \<^verbatim>\<open>load_all_games()\<close> holds under the key \<open>channel_id g\<close> a session equal to \<open>g\<close> in every
  field (session id, starter, first words, words per turn, total lines, contributions,
  contributors, both slots, status, last activity, current turn) but the transient
  \<^verbatim>\<open>_skip_init\<close>, which is \<^verbatim>\<open>True\<close> on every loaded session.
\<close>

theorem save_load_roundtrip:
  assumes "status g \<noteq> ''complete''"
    and "storable g"
    and "loads_strs env (dumps_strs env (contributions g)) = contributions g"
    and "loads_ints env (dumps_ints env (contributors g)) = contributors g"
    and "fromisoformat env (isoformat env (last_activity g)) = last_activity g"
  shows "try_save_game env g tbl = Inr (save_game env g tbl)
       \<and> map_of (load_all_games env now (save_game env g tbl)) (channel_id g)
           = Some (g\<lparr>skip_init := True\<rparr>)"
proof -
  have "col_status (row_of env g) \<noteq> ''complete''"
    using assms(1) by (simp add: row_of_def)
  then show ?thesis
    using game_of_row_of [OF assms(3-5), of now] assms(2)
    by (simp add: try_save_game_def load_all_games_def save_game_def update_conv' Let_def)
qed

text \<open>An active session with two contributions, last active on 2023-11-14 at
  22:13:20.123456, with the codecs of \<open>sample_env\<close>: the lists are written as
  \<^verbatim>\<open>["a b c d e f", "g h i j k l"]\<close> and \<^verbatim>\<open>[10, 20]\<close>, the timestamp as
  \<^verbatim>\<open>2023-11-14T22:13:20.123456\<close>, and all three are read back.\<close>

theorem save_load_roundtrip_witness:
  "(let g = (Game_init 3 1 10 (str ''a b c d e f'') 6 4 False)
              \<lparr>contributions := [str ''a b c d e f'', str ''g h i j k l''],
               contributors := [10, 20], player_b := Some 20, status := ''active'',
               last_activity := 1700000000123456, current_turn := 2\<rparr>
    in status g \<noteq> ''complete'' \<and> storable g
     \<and> dumps_strs sample_env (contributions g) = 91 # 34 # str ''a b c d e f'' @ [34, 44, 32, 34] @ str ''g h i j k l'' @ [34, 93]
     \<and> dumps_ints sample_env (contributors g) = str ''[10, 20]''
     \<and> isoformat sample_env (last_activity g) = str ''2023-11-14T22:13:20.123456''
     \<and> loads_strs sample_env (dumps_strs sample_env (contributions g)) = contributions g
     \<and> loads_ints sample_env (dumps_ints sample_env (contributors g)) = contributors g
     \<and> fromisoformat sample_env (isoformat sample_env (last_activity g)) = last_activity g
     \<and> try_save_game sample_env g [] = Inr [row_of sample_env g]
     \<and> map_of (load_all_games sample_env 5 (save_game sample_env g [])) 1
         = Some (g\<lparr>skip_init := True\<rparr>))"
proof -
  let ?g = "(Game_init 3 1 10 (str ''a b c d e f'') 6 4 False)
              \<lparr>contributions := [str ''a b c d e f'', str ''g h i j k l''],
               contributors := [10, 20], player_b := Some 20, status := ''active'',
               last_activity := 1700000000123456, current_turn := 2\<rparr>"
  have st: "status ?g \<noteq> ''complete''" and fits: "storable ?g"
    by (simp_all add: Game_init_def storable_def sqlite_int_def sqlite_opt_def)
  have d1: "dumps_strs sample_env (contributions ?g)
              = 91 # 34 # str ''a b c d e f'' @ [34, 44, 32, 34] @ str ''g h i j k l'' @ [34, 93]"
    by (simp add: sample_env_def json_dumps_strs_def quote_def str_def)
  have d2: "dumps_ints sample_env (contributors ?g) = str ''[10, 20]''"
    by (simp add: sample_env_def json_dumps_ints_def show_int_def digits.simps str_def)
  have d3: "isoformat sample_env (last_activity ?g) = str ''2023-11-14T22:13:20.123456''"
    by (simp add: sample_env_def iso_format_def civil_of_days_def pad_def digits.simps Let_def
        str_def)
  have l1: "loads_strs sample_env (dumps_strs sample_env (contributions ?g)) = contributions ?g"
    unfolding d1 by (simp add: sample_env_def str_def)
  have l2: "loads_ints sample_env (dumps_ints sample_env (contributors ?g)) = contributors ?g"
    unfolding d2 by (simp add: sample_env_def str_def)
  have l3: "fromisoformat sample_env (isoformat sample_env (last_activity ?g))
              = last_activity ?g"
    unfolding d3
    by (simp add: sample_env_def iso_parse_def days_of_civil_def number_def Let_def str_def)
  note inst = save_load_roundtrip [OF st fits l1 l2 l3, of "[]" 5]
  have key: "channel_id ?g = 1" by (simp add: Game_init_def)
  have sv: "save_game sample_env ?g [] = [row_of sample_env ?g]"
    by (simp add: save_game_def)
  show ?thesis
    unfolding Let_def
    using st fits d1 d2 d3 l1 l2 l3 inst [unfolded key] sv by simp
qed

subsection \<open>Abandoning\<close>

text \<open>
  C10.  When an identity bound to the session of channel \<open>ch\<close> abandons, its entries leave
  both router dicts and no other entry changes; every other session is as before; in the
  session of \<open>ch\<close> each slot equal to the identity becomes vacant and every other field
  (status, contributions, contributors, current turn and also last activity, which is not
  refreshed) keeps its value, and that session is saved.  When the dict has no session
  under \<open>ch\<close>, neither the sessions nor the table change.
\<close>

theorem cmd_abandon_frame:
  assumes "player_games b user = Some ch"
  shows "(let b' = snd (cmd_abandon env user b) in
            player_games b' = (player_games b)(user := None)
          \<and> pending_responses b' = (pending_responses b)(user := None)
          \<and> (\<forall>k. k \<noteq> ch \<longrightarrow> map_of (games b') k = map_of (games b) k)
          \<and> (case map_of (games b) ch of
                None \<Rightarrow> games b' = games b \<and> db b' = db b
              | Some g \<Rightarrow>
                  (let g' = g\<lparr>player_a := (if player_a g = Some user then None else player_a g),
                              player_b := (if player_b g = Some user then None else player_b g)\<rparr>
                   in map_of (games b') ch = Some g'
                    \<and> status g' = status g \<and> contributions g' = contributions g
                    \<and> contributors g' = contributors g \<and> current_turn g' = current_turn g
                    \<and> last_activity g' = last_activity g
                    \<and> db b' = save_game env g' (db b))))"
  using assms
  by (auto simp: cmd_abandon_def leave_slots_def Let_def update_conv' split: option.splits)

text \<open>In the state of the run after the join, identity 20 abandons: its slot is vacated,
  its two entries go, and the last activity is still 3.\<close>

theorem cmd_abandon_frame_witness:
  "(let g = (Game_init 3 1 10 (str ''a b c d e f'') 6 4 False)\<lparr>player_b := Some 20, status := ''active''\<rparr>;
        b = bot_with g [10 \<mapsto> 1, 20 \<mapsto> 1] [20 \<mapsto> 1]
    in player_games b 20 = Some 1
     \<and> cmd_abandon sample_env 20 b =
         (LeftGame,
          b\<lparr>games := [(1, g\<lparr>player_b := None\<rparr>)], player_games := [10 \<mapsto> 1],
            pending_responses := Map.empty, db := [row_of sample_env (g\<lparr>player_b := None\<rparr>)]\<rparr>)
     \<and> last_activity (g\<lparr>player_b := None\<rparr>) = 3)"
  using cmd_abandon_frame
    [where b = "bot_with ((Game_init 3 1 10 (str ''a b c d e f'') 6 4 False)
                  \<lparr>player_b := Some 20, status := ''active''\<rparr>) [10 \<mapsto> 1, 20 \<mapsto> 1] [20 \<mapsto> 1]"
      and user = 20 and ch = 1 and env = sample_env]
  by (simp add: bot_with_def Game_init_def Let_def cmd_abandon_def leave_slots_def save_game_def
      row_of_def)

subsection \<open>Joining\<close>

text \<open>
  C9.  In an active session whose current-turn slot is vacant, \<^verbatim>\<open>join\<close> accepts the
  identity that holds the other slot and is bound to this very session: without words it
  takes the vacant slot, is marked as awaited, and the session stays active with the same
  identity in both slots; with the right number of words it takes the slot and contributes
  in the same step, again holding both slots.  (The checks that can reject a player of the
  same game are the one for a binding to another channel and the one for the creator of an
  open session; neither applies here.)
\<close>

theorem cmd_join_same_session:
  assumes "map_of (games b) ch = Some g"
    and "status g = ''active''"
    and "player_games b user = Some ch"
    and "(current_turn g mod 2 = 0 \<and> player_a g = None \<and> player_b g = Some user)
       \<or> (current_turn g mod 2 = 1 \<and> player_b g = None \<and> player_a g = Some user)"
  shows "(let g1 = g\<lparr>player_a := Some user, player_b := Some user\<rparr> in
            cmd_join env now user ch None b =
              (JoinedCheckDMs,
               b\<lparr>games := AList.update ch g1 (games b),
                 player_games := (player_games b)(user \<mapsto> ch),
                 pending_responses := (pending_responses b)(user \<mapsto> ch),
                 db := save_game env g1 (db b)\<rparr>)
          \<and> status g1 = ''active''
          \<and> (w \<noteq> [] \<and> count_words w = words_per_turn g \<longrightarrow>
               (let g2 = add_contribution now user w g1 in
                  cmd_join env now user ch (Some w) b =
                    (TakesOver,
                     finish_turn env g2
                       (b\<lparr>games := AList.update ch g2 (games b),
                          player_games := (player_games b)(user \<mapsto> ch),
                          db := save_game env g2 (db b)\<rparr>))
                \<and> player_a g2 = Some user \<and> player_b g2 = Some user)))"
proof -
  have sl: "slot_is_open g" and st: "status g \<noteq> ''complete''" "status g \<noteq> ''pending''" "status g \<noteq> ''open''"
    using assms(2,4) by (auto simp: slot_is_open_def)
  have other: "\<not> in_other_game b user ch"
    using assms(3) by (simp add: in_other_game_def)
  have slot: "take_slot user g = g\<lparr>player_a := Some user, player_b := Some user\<rparr>"
    using assms(4) by (auto simp: take_slot_def)
  show ?thesis
    using assms(1,2) sl st other
    by (simp add: cmd_join_def slot Let_def add_contribution_def)
qed

text \<open>In the last state of the run identity 20 holds slot b, slot a is vacant and it is
  the turn of slot a: identity 20 joins, without words and with six words.\<close>

theorem cmd_join_same_session_witness:
  "(let g = (Game_init 3 1 10 (str ''a b c d e f'') 6 4 False)
              \<lparr>contributions := [(str ''a b c d e f''), (str ''g h i j k l'')], contributors := [10, 20],
               player_a := None, player_b := Some 20, status := ''active'',
               last_activity := 5, current_turn := 2\<rparr>;
        b = bot_with g [20 \<mapsto> 1] Map.empty;
        g1 = g\<lparr>player_a := Some 20, player_b := Some 20\<rparr>;
        g2 = g1\<lparr>contributions := [(str ''a b c d e f''), (str ''g h i j k l''), (str ''m n o p q r'')],
                contributors := [10, 20, 20], last_activity := 7, current_turn := 3\<rparr>
    in map_of (games b) 1 = Some g \<and> status g = ''active'' \<and> player_games b 20 = Some 1
     \<and> current_turn g mod 2 = 0 \<and> player_a g = None \<and> player_b g = Some 20
     \<and> cmd_join sample_env 7 20 1 None b =
         (JoinedCheckDMs,
          b\<lparr>games := [(1, g1)], pending_responses := [20 \<mapsto> 1], db := [row_of sample_env g1]\<rparr>)
     \<and> count_words (str ''m n o p q r'') = words_per_turn g
     \<and> cmd_join sample_env 7 20 1 (Some (str ''m n o p q r'')) b =
         (TakesOver,
          b\<lparr>games := [(1, g2)], pending_responses := [20 \<mapsto> 1], db := [row_of sample_env g2]\<rparr>))"
  using cmd_join_same_session
    [where b = "bot_with ((Game_init 3 1 10 (str ''a b c d e f'') 6 4 False)
              \<lparr>contributions := [(str ''a b c d e f''), (str ''g h i j k l'')], contributors := [10, 20],
               player_a := None, player_b := Some 20, status := ''active'',
               last_activity := 5, current_turn := 2\<rparr>) [20 \<mapsto> 1] Map.empty"
      and ch = 1 and user = 20 and w = "(str ''m n o p q r'')" and env = sample_env and now = 7]
  by (simp add: bot_with_def Game_init_def example_word_counts example_texts Let_def add_contribution_def total_turns_def
      current_player_def finish_turn_def prompt_next_player_def sample_env_def save_game_def
      row_of_def)

subsection \<open>Timeout monitor\<close>

lemma current_player_vacated:
  "status g \<noteq> ''open'' \<Longrightarrow> current_player (timeout_current_player g) = None"
  by (simp add: current_player_def timeout_current_player_def)

lemma timeout_step_skip:
  assumes "map_of (games b) ch = Some g"
    and "status g \<noteq> ''active'' \<or> now - last_activity g \<le> timeout \<or> \<not> truthy (current_player g)"
  shows "timeout_step env now ch b = (False, b)"
  using assms by (auto simp: timeout_step_def split: option.splits)

lemma timeout_step_fire:
  assumes "map_of (games b) ch = Some g"
    and "status g = ''active''" and "timeout < now - last_activity g"
    and "current_player g = Some p" and "p \<noteq> 0"
  shows "timeout_step env now ch b =
           (get_channel env ch \<and> last_word (timeout_current_player g) = Inl IndexError,
            b\<lparr>games := AList.update ch (timeout_current_player g) (games b),
              db := save_game env (timeout_current_player g) (db b),
              player_games := (player_games b)(p := None),
              pending_responses := (pending_responses b)(p := None)\<rparr>)"
  using assms by (simp add: timeout_step_def Let_def)

lemma timeout_step_games:
  "map_of (games (snd (timeout_step env now ch b))) k =
     (if k = ch then map_option (swept now) (map_of (games b) k) else map_of (games b) k)"
  by (auto simp: timeout_step_def swept_def Let_def update_conv' split: option.splits)

lemma status_tcp [simp]: "status (timeout_current_player g) = status g"
  "last_activity (timeout_current_player g) = last_activity g"
  by (simp_all add: timeout_current_player_def)

lemma swept_after_fire:
  "status g = ''active'' \<Longrightarrow> swept now' (timeout_current_player g) = timeout_current_player g"
  by (simp add: swept_def current_player_vacated)

lemma swept_swept: "swept now (swept now g) = swept now g"
  by (auto simp: swept_def current_player_vacated)

text \<open>After the loop a session is as it was, when the loop ended before its entry, or as
  the body leaves it; it is the latter when the loop has not raised.\<close>

lemma timeout_loop_games:
  "map_of (games (snd (timeout_loop env now ks b))) k = map_of (games b) k
   \<or> map_of (games (snd (timeout_loop env now ks b))) k
       = map_option (swept now) (map_of (games b) k)"
proof (induction ks arbitrary: b)
  case Nil
  show ?case by simp
next
  case (Cons c cs)
  obtain r b1 where st: "timeout_step env now c b = (r, b1)"
    by (cases "timeout_step env now c b")
  have g1: "map_of (games b1) k
              = (if k = c then map_option (swept now) (map_of (games b) k) else map_of (games b) k)"
    using timeout_step_games [of env now c b k] by (simp add: st)
  show ?case
  proof (cases r)
    case True
    then show ?thesis using st g1 by simp
  next
    case False
    then have "timeout_loop env now (c # cs) b = timeout_loop env now cs b1"
      using st by simp
    then show ?thesis
      using Cons.IH [of b1] g1
      by (auto simp: option.map_comp comp_def swept_swept)
  qed
qed

lemma timeout_loop_done:
  "\<not> fst (timeout_loop env now ks b) \<Longrightarrow>
   map_of (games (snd (timeout_loop env now ks b))) k =
     (if k \<in> set ks then map_option (swept now) (map_of (games b) k) else map_of (games b) k)"
proof (induction ks arbitrary: b)
  case Nil
  show ?case by simp
next
  case (Cons c cs)
  obtain r b1 where st: "timeout_step env now c b = (r, b1)"
    by (cases "timeout_step env now c b")
  have g1: "map_of (games b1) k
              = (if k = c then map_option (swept now) (map_of (games b) k) else map_of (games b) k)"
    using timeout_step_games [of env now c b k] by (simp add: st)
  have r: "\<not> r" using Cons.prems st by (cases r) simp_all
  then have eq: "timeout_loop env now (c # cs) b = timeout_loop env now cs b1"
    using st by simp
  then have "\<not> fst (timeout_loop env now cs b1)"
    using Cons.prems by simp
  from Cons.IH [OF this] g1 show ?case
    unfolding eq by (auto simp: option.map_comp comp_def swept_swept)
qed

lemma timeout_checker_games:
  "map_of (games (snd (timeout_checker env now b))) k = map_of (games b) k
   \<or> map_of (games (snd (timeout_checker env now b))) k
       = map_option (swept now) (map_of (games b) k)"
  unfolding timeout_checker_def by (rule timeout_loop_games)

lemma timeout_checker_done:
  assumes "\<not> fst (timeout_checker env now b)"
  shows "map_of (games (snd (timeout_checker env now b))) k
           = map_option (swept now) (map_of (games b) k)"
proof (cases "k \<in> set (map fst (games b))")
  case True
  then show ?thesis
    using assms timeout_loop_done [of env now "map fst (games b)" b k]
    by (simp add: timeout_checker_def)
next
  case False
  then have "map_of (games b) k = None"
    by (simp add: map_of_eq_None_iff)
  then show ?thesis
    using assms False timeout_loop_done [of env now "map fst (games b)" b k]
    by (simp add: timeout_checker_def)
qed

lemma timeout_checker_skip:
  assumes "map_of (games b) ch = Some g"
    and "status g \<noteq> ''active'' \<or> now - last_activity g \<le> timeout \<or> \<not> truthy (current_player g)"
  shows "map_of (games (snd (timeout_checker env now b))) ch = Some g"
proof -
  have "swept now g = g" using assms(2) by (auto simp: swept_def)
  then show ?thesis
    using timeout_checker_games [of env now b ch] assms(1) by auto
qed

text \<open>
  C4.  For a session \<open>g\<close> that a run of the monitor considers.  Unless \<open>g\<close> is active, its
  last activity is more than the threshold before \<open>now\<close>, and its current-turn slot holds
  an identity (one that the test \<^verbatim>\<open>if not timed_out_player\<close> lets through: not \<^verbatim>\<open>None\<close> and
  not \<^verbatim>\<open>0\<close>), the loop body changes nothing at all, and a whole run leaves \<open>g\<close> as it is;
  so a pending, open or complete session is never touched.  Otherwise the loop body clears
  exactly the current-turn slot of \<open>g\<close>, saves the session, and removes the identity from
  both router dicts, changing nothing else; only after that it may raise, when the channel
  resolves and the last contribution has no word.  After a whole run the session is
  vacated in this way or, if the loop was ended by an earlier entry, untouched; it is
  vacated whenever the run has not raised.  Once vacated the session is skipped: at any
  later time the loop body changes nothing, and a whole second run leaves the session as
  it is.
\<close>

theorem timeout_sweep_session:
  assumes "map_of (games b) ch = Some g"
  shows "(status g \<noteq> ''active'' \<or> now - last_activity g \<le> timeout \<or> \<not> truthy (current_player g)
            \<longrightarrow> timeout_step env now ch b = (False, b)
              \<and> map_of (games (snd (timeout_checker env now b))) ch = Some g)
       \<and> (\<forall>p. status g = ''active'' \<and> timeout < now - last_activity g
                \<and> current_player g = Some p \<and> truthy (Some p) \<longrightarrow>
            (let g1 = (if current_turn g mod 2 = 0 then g\<lparr>player_a := None\<rparr>
                       else g\<lparr>player_b := None\<rparr>);
                 b1 = b\<lparr>games := AList.update ch g1 (games b),
                        db := save_game env g1 (db b),
                        player_games := (player_games b)(p := None),
                        pending_responses := (pending_responses b)(p := None)\<rparr>;
                 b2 = snd (timeout_checker env now b)
             in timeout_step env now ch b
                  = (get_channel env ch \<and> last_word g1 = Inl IndexError, b1)
              \<and> current_player g1 = None
              \<and> (map_of (games b2) ch = Some g \<or> map_of (games b2) ch = Some g1)
              \<and> (\<not> fst (timeout_checker env now b) \<longrightarrow> map_of (games b2) ch = Some g1)
              \<and> (\<forall>now'. timeout_step env now' ch b1 = (False, b1)
                     \<and> map_of (games (snd (timeout_checker env now' b1))) ch = Some g1
                     \<and> (map_of (games b2) ch = Some g1 \<longrightarrow>
                          map_of (games (snd (timeout_checker env now' b2))) ch = Some g1))))"
proof (intro conjI impI allI)
  assume skip: "status g \<noteq> ''active'' \<or> now - last_activity g \<le> timeout
                  \<or> \<not> truthy (current_player g)"
  show "timeout_step env now ch b = (False, b)"
    using assms skip by (rule timeout_step_skip)
  show "map_of (games (snd (timeout_checker env now b))) ch = Some g"
    using assms skip by (rule timeout_checker_skip)
next
  fix p
  assume fire: "status g = ''active'' \<and> timeout < now - last_activity g
                  \<and> current_player g = Some p \<and> truthy (Some p)"
  let ?g1 = "timeout_current_player g"
  let ?b1 = "b\<lparr>games := AList.update ch ?g1 (games b),
                        db := save_game env ?g1 (db b),
                        player_games := (player_games b)(p := None),
                        pending_responses := (pending_responses b)(p := None)\<rparr>"
  let ?b2 = "snd (timeout_checker env now b)"
  have st: "timeout_step env now ch b
              = (get_channel env ch \<and> last_word ?g1 = Inl IndexError, ?b1)"
    using assms fire by (simp add: timeout_step_fire)
  have vac: "current_player ?g1 = None"
    using fire by (simp add: current_player_vacated)
  have sw: "swept now g = ?g1"
    using fire by (simp add: swept_def)
  have either: "map_of (games ?b2) ch = Some g \<or> map_of (games ?b2) ch = Some ?g1"
    using timeout_checker_games [of env now b ch] assms by (simp add: sw)
  have fin: "\<not> fst (timeout_checker env now b) \<longrightarrow> map_of (games ?b2) ch = Some ?g1"
    using timeout_checker_done [of env now b ch] assms by (simp add: sw)
  have skip1: "status ?g1 \<noteq> ''active'' \<or> now' - last_activity ?g1 \<le> timeout
            \<or> \<not> truthy (current_player ?g1)" for now'
    by (simp add: vac)
  have at1: "map_of (games ?b1) ch = Some ?g1"
    by (simp add: update_conv')
  have again: "timeout_step env now' ch ?b1 = (False, ?b1)" for now'
    using at1 skip1 by (rule timeout_step_skip)
  have again_run: "map_of (games (snd (timeout_checker env now' ?b1))) ch = Some ?g1" for now'
    using at1 skip1 by (rule timeout_checker_skip)
  have second: "map_of (games ?b2) ch = Some ?g1 \<longrightarrow>
                  map_of (games (snd (timeout_checker env now' ?b2))) ch = Some ?g1" for now'
    using skip1 [of now'] by (auto intro: timeout_checker_skip)
  show "let g1 = (if current_turn g mod 2 = 0 then g\<lparr>player_a := None\<rparr>
                       else g\<lparr>player_b := None\<rparr>);
                 b1 = b\<lparr>games := AList.update ch g1 (games b),
                        db := save_game env g1 (db b),
                        player_games := (player_games b)(p := None),
                        pending_responses := (pending_responses b)(p := None)\<rparr>;
                 b2 = snd (timeout_checker env now b)
             in timeout_step env now ch b
                  = (get_channel env ch \<and> last_word g1 = Inl IndexError, b1)
              \<and> current_player g1 = None
              \<and> (map_of (games b2) ch = Some g \<or> map_of (games b2) ch = Some g1)
              \<and> (\<not> fst (timeout_checker env now b) \<longrightarrow> map_of (games b2) ch = Some g1)
              \<and> (\<forall>now'. timeout_step env now' ch b1 = (False, b1)
                     \<and> map_of (games (snd (timeout_checker env now' b1))) ch = Some g1
                     \<and> (map_of (games b2) ch = Some g1 \<longrightarrow>
                          map_of (games (snd (timeout_checker env now' b2))) ch = Some g1))"
    unfolding Let_def timeout_current_player_def [symmetric]
    using st vac either fin again again_run second by blast
qed

text \<open>In the state of the run after the message it is the turn of identity 10, last
  active at 5: a run of the monitor at 7200000006 vacates slot a and does not raise, one
  at 7200000005 does not vacate yet, and a later run changes nothing more.\<close>

theorem timeout_sweep_session_witness:
  "(let g = (Game_init 3 1 10 (str ''a b c d e f'') 6 4 False)
              \<lparr>contributions := [str ''a b c d e f'', str ''g h i j k l''],
               contributors := [10, 20],
               player_b := Some 20, status := ''active'', last_activity := 5,
               current_turn := 2\<rparr>;
        b = bot_with g [10 \<mapsto> 1, 20 \<mapsto> 1] [10 \<mapsto> 1];
        g1 = g\<lparr>player_a := None\<rparr>;
        b1 = b\<lparr>games := [(1, g1)], db := [row_of sample_env g1],
                player_games := [20 \<mapsto> 1], pending_responses := Map.empty\<rparr>
    in map_of (games b) 1 = Some g
     \<and> status g = ''active'' \<and> timeout < 7200000006 - last_activity g
     \<and> current_player g = Some 10 \<and> truthy (Some 10)
     \<and> timeout_step sample_env 7200000006 1 b = (False, b1)
     \<and> timeout_checker sample_env 7200000006 b = (False, b1)
     \<and> timeout_step sample_env 9900000000 1 b1 = (False, b1)
     \<and> timeout_checker sample_env 9900000000 b1 = (False, b1)
     \<and> 7200000005 - last_activity g \<le> timeout
     \<and> timeout_step sample_env 7200000005 1 b = (False, b))"
  using timeout_sweep_session
    [where b = "bot_with ((Game_init 3 1 10 (str ''a b c d e f'') 6 4 False)
              \<lparr>contributions := [str ''a b c d e f'', str ''g h i j k l''],
               contributors := [10, 20],
               player_b := Some 20, status := ''active'', last_activity := 5,
               current_turn := 2\<rparr>) [10 \<mapsto> 1, 20 \<mapsto> 1] [10 \<mapsto> 1]"
      and ch = 1 and env = sample_env and now = 7200000006]
  by (simp add: bot_with_def Game_init_def Let_def timeout_def current_player_def
      timeout_step_def timeout_checker_def timeout_current_player_def save_game_def row_of_def
      fun_upd_twist last_word_def split_def is_space_def str_def sample_env_def)

text \<open>A loop that raises.  The session of channel 1 has zero words per turn and a blank
  as first words; both sessions are overdue.  The body vacates the first, raises on its
  last word, and the session of channel 2 is not visited.\<close>

lemma timeout_checker_raises:
  "(let g1 = (Game_init 3 1 10 [32] 0 4 False)\<lparr>player_b := Some 20, status := ''active''\<rparr>;
        g2 = (Game_init 3 2 30 (str ''a b c d e f'') 6 4 False)
               \<lparr>player_b := Some 40, status := ''active''\<rparr>;
        b = \<lparr>games = [(1, g1), (2, g2)], player_games = [10 \<mapsto> 1, 20 \<mapsto> 1, 30 \<mapsto> 2, 40 \<mapsto> 2],
             pending_responses = [20 \<mapsto> 1, 40 \<mapsto> 2], db = []\<rparr>
    in timeout_checker sample_env 7200000006 b =
         (True,
          b\<lparr>games := [(1, g1\<lparr>player_b := None\<rparr>), (2, g2)],
            db := [row_of sample_env (g1\<lparr>player_b := None\<rparr>)],
            player_games := [10 \<mapsto> 1, 30 \<mapsto> 2, 40 \<mapsto> 2],
            pending_responses := [40 \<mapsto> 2]\<rparr>))"
  by (simp add: Game_init_def Let_def timeout_def current_player_def timeout_step_def
      timeout_checker_def timeout_current_player_def save_game_def row_of_def
      last_word_def split_def is_space_def sample_env_def fun_upd_twist)

subsection \<open>Word count\<close>

text \<open>
  C6, as the code has it.  Let the submitted text have a number of whitespace-separated
  tokens other than \<open>words_per_turn\<close> of the session.  A direct message that the sender's
  mark routes to the session is answered with the word-count error.  A \<^verbatim>\<open>join\<close> with that
  (non-empty) text is answered with the error of the first check that fails, in the order
  of the code: no joinable session (complete), waiting for the starter (pending), bound to
  another channel, no open slot, playing against oneself, and only then the word-count
  error.  In every case the whole state is returned as it was: no field of the session, no
  router entry and no row changes.
\<close>

theorem word_count_mismatch_rejected:
  assumes "map_of (games b) ch = Some g"
  shows "(\<not> author_bot msg \<and> \<not> in_guild msg \<and> pending_responses b (author_id msg) = Some ch
            \<and> count_words (strip (content msg)) \<noteq> words_per_turn g \<longrightarrow>
          on_message env now msg b =
            (WordCountMismatch (words_per_turn g) (count_words (strip (content msg))), b))
       \<and> (w \<noteq> [] \<and> count_words w \<noteq> words_per_turn g \<longrightarrow>
          cmd_join env now user ch (Some w) b =
            (if status g = ''complete'' then NoActiveGame
             else if status g = ''pending'' then WaitingForStarter
             else if in_other_game b user ch then InOtherGame (other_channel b user)
             else if \<not> slot_is_open g then SlotUnavailable
             else if status g = ''open'' \<and> Some user = player_a g then SelfPlay
             else WordCountMismatch (words_per_turn g) (count_words w), b))"
  using assms by (simp add: on_message_def cmd_join_def Let_def)

text \<open>A session of one line and six words per turn: five words are refused from a
  joining identity 20 while it is open, and from identity 20 by direct message after it
  has joined without words; the turn counter stays 1.\<close>

theorem word_count_mismatch_rejected_witness:
  "(let g = Game_init 3 1 10 (str ''a b c d e f'') 6 1 False;
        b = bot_with g [10 \<mapsto> 1] Map.empty;
        g' = g\<lparr>player_b := Some 20, status := ''active''\<rparr>;
        b' = bot_with g' [10 \<mapsto> 1, 20 \<mapsto> 1] [20 \<mapsto> 1];
        msg = \<lparr>author_id = 20, author_bot = False, in_guild = False, content = (str ''a b c d e'')\<rparr>
    in map_of (games b) 1 = Some g \<and> map_of (games b') 1 = Some g'
     \<and> count_words (str ''a b c d e'') \<noteq> words_per_turn g
     \<and> cmd_join sample_env 7 20 1 (Some (str ''a b c d e'')) b = (WordCountMismatch 6 5, b)
     \<and> current_turn g = 1
     \<and> pending_responses b' (author_id msg) = Some 1
     \<and> count_words (strip (content msg)) \<noteq> words_per_turn g'
     \<and> on_message sample_env 7 msg b' = (WordCountMismatch 6 5, b'))"
  using word_count_mismatch_rejected
    [where b = "bot_with (Game_init 3 1 10 (str ''a b c d e f'') 6 1 False) [10 \<mapsto> 1] Map.empty"
       and ch = 1 and w = "(str ''a b c d e'')" and env = sample_env and now = 7 and user = 20
       and msg = "\<lparr>author_id = 0, author_bot = True, in_guild = False, content = []\<rparr>"]
    word_count_mismatch_rejected
    [where b = "bot_with ((Game_init 3 1 10 (str ''a b c d e f'') 6 1 False)
                   \<lparr>player_b := Some 20, status := ''active''\<rparr>) [10 \<mapsto> 1, 20 \<mapsto> 1] [20 \<mapsto> 1]"
       and ch = 1 and w = "[]" and env = sample_env and now = 7 and user = 20
       and msg = "\<lparr>author_id = 20, author_bot = False, in_guild = False, content = (str ''a b c d e'')\<rparr>"]
  by (simp add: bot_with_def Game_init_def Let_def example_word_counts example_texts
        slot_is_open_def in_other_game_def)

text \<open>The claim as stated fails for a \<^verbatim>\<open>join\<close>: five words for a pending session of six
  words per turn are refused because the session is pending, not for their number.\<close>

theorem word_count_mismatch_counterexample:
  "(let g = (Game_init 3 1 10 [] 6 4 True)\<lparr>player_a := Some 10, status := ''pending''\<rparr>;
        b = bot_with g [10 \<mapsto> 1] [10 \<mapsto> 1]
    in map_of (games b) 1 = Some g
     \<and> count_words (str ''a b c d e'') \<noteq> words_per_turn g
     \<and> cmd_join sample_env 7 20 1 (Some (str ''a b c d e'')) b = (WaitingForStarter, b)
     \<and> WaitingForStarter \<noteq> WordCountMismatch (words_per_turn g) (count_words (str ''a b c d e'')))"
  by (simp add: bot_with_def Game_init_def Let_def example_word_counts example_texts cmd_join_def)

subsection \<open>Stale marks\<close>




subsection \<open>Completion\<close>

text \<open>When the channel resolves, \<^verbatim>\<open>post_completed_poem\<close> removes the session from the
  dict, its row from the table, and both occupants from both router dicts.  When it does
  not, the function returns before the cleanup.\<close>

lemma forget_player_games [simp]:
  "games (forget_player uid b) = games b" "db (forget_player uid b) = db b"
  by (simp_all add: forget_player_def split: option.splits)

lemma forget_player_gone:
  "truthy (Some u) \<Longrightarrow> player_games (forget_player (Some u) b) u = None
     \<and> pending_responses (forget_player (Some u) b) u = None"
  by (simp add: forget_player_def)

lemma forget_player_keeps_gone:
  "player_games b u = None \<Longrightarrow> player_games (forget_player uid b) u = None"
  "pending_responses b u = None \<Longrightarrow> pending_responses (forget_player uid b) u = None"
  by (simp_all add: forget_player_def split: option.splits)

lemma post_completed_poem_cleanup:
  assumes "get_channel env (channel_id g)"
  shows "map_of (games (post_completed_poem env g b)) (channel_id g) = None
       \<and> (\<forall>r \<in> set (db (post_completed_poem env g b)). col_channel_id r \<noteq> channel_id g)
       \<and> (\<forall>u. truthy (Some u) \<and> (player_a g = Some u \<or> player_b g = Some u) \<longrightarrow>
             player_games (post_completed_poem env g b) u = None
           \<and> pending_responses (post_completed_poem env g b) u = None)"
  using assms
  by (auto simp: post_completed_poem_def Let_def delete_conv' delete_game_def
      forget_player_gone forget_player_keeps_gone)

lemma post_completed_poem_no_channel:
  "\<not> get_channel env (channel_id g) \<Longrightarrow> post_completed_poem env g b = b"
  by (simp add: post_completed_poem_def)

text \<open>
  C3 at a failing input.  Identity 10 starts a one-line session in channel 1 with six
  words and identity 20 joins with six words, while \<^verbatim>\<open>bot.get_channel\<close> finds no channel.
  The join completes the session, and then nothing is cleaned up: the session is still in
  the dict with status \<^verbatim>\<open>complete\<close>, its row is still in the table, and both identities are
  still bound to channel 1.
\<close>

theorem completion_without_channel:
  "(let env = sample_env\<lparr>get_channel := (\<lambda>_. False)\<rparr>;
        g = Game_init 3 1 10 (str ''a b c d e f'') 6 1 False;
        b = \<lparr>games = [(1, g)], player_games = [10 \<mapsto> 1], pending_responses = Map.empty,
             db = [row_of env g]\<rparr>;
        g' = g\<lparr>contributions := [(str ''a b c d e f''), (str ''g h i j k l'')], contributors := [10, 20],
                player_b := Some 20, status := ''complete'', last_activity := 7,
                current_turn := 2\<rparr>
    in cmd_start env 3 10 1 (Some (str ''a b c d e f'')) 1 6 empty_bot = (Started, b)
     \<and> cmd_join env 7 20 1 (Some (str ''g h i j k l'')) b =
         (Joined,
          \<lparr>games = [(1, g')], player_games = [10 \<mapsto> 1, 20 \<mapsto> 1],
           pending_responses = Map.empty, db = [row_of env g']\<rparr>))"
  by (simp add: Let_def sample_env_def Game_init_def cmd_start_def cmd_join_def empty_bot_def
      example_word_counts example_texts save_game_def row_of_def slot_is_open_def in_other_game_def add_contribution_def
      total_turns_def finish_turn_def post_completed_poem_def fun_upd_twist)

subsection \<open>Sessions under one step\<close>

lemma evolved_refl: "evolved u w g g"
  by (simp add: evolved_def)

lemma finish_turn_games:
  "map_of (games (finish_turn env g1 b1)) k = Some g' \<Longrightarrow> map_of (games b1) k = Some g'"
  by (auto simp: finish_turn_def post_completed_poem_def prompt_next_player_def forget_player_def
      Let_def delete_conv' split: option.splits if_splits)

lemma evolved_add:
  "contributions g0 = contributions g \<Longrightarrow> contributors g0 = contributors g \<Longrightarrow>
   current_turn g0 = current_turn g \<Longrightarrow> total_lines g0 = total_lines g \<Longrightarrow>
   status g0 = status g \<or> status g = ''open'' \<and> status g0 = ''active'' \<Longrightarrow>
   evolved u w g (add_contribution now u w g0)"
  by (auto simp: evolved_def add_contribution_def total_turns_def Let_def)

lemma cmd_start_game:
  assumes "map_of (games (snd (cmd_start env now user ch words lines wordcount b))) k = Some g'"
  shows "map_of (games b) k = Some g' \<or> fresh user (case words of None \<Rightarrow> [] | Some w \<Rightarrow> w) g'"
  using assms
  by (cases words)
     (auto simp: cmd_start_def Let_def update_conv' fresh_def Game_init_def
       split: option.splits if_splits)

lemma cmd_join_rejected:
  assumes "map_of (games b) ch = Some game"
    and "status game = ''complete'' \<or> status game = ''pending'' \<or> in_other_game b user ch
           \<or> \<not> slot_is_open game \<or> (status game = ''open'' \<and> Some user = player_a game)"
  shows "snd (cmd_join env now user ch words b) = b"
proof -
  consider (a) "status game = ''complete''"
    | (b) "status game \<noteq> ''complete''" "status game = ''pending''"
    | (c) "status game \<noteq> ''complete''" "status game \<noteq> ''pending''" "in_other_game b user ch"
    | (d) "status game \<noteq> ''complete''" "status game \<noteq> ''pending''" "\<not> in_other_game b user ch"
          "\<not> slot_is_open game"
    | (e) "status game \<noteq> ''complete''" "status game \<noteq> ''pending''" "\<not> in_other_game b user ch"
          "slot_is_open game" "status game = ''open'' \<and> Some user = player_a game"
    using assms(2) by blast
  then show ?thesis
  proof cases
    case a then show ?thesis using assms(1) by (simp add: cmd_join_def)
  next
    case b then show ?thesis using assms(1) by (simp add: cmd_join_def)
  next
    case c then show ?thesis using assms(1) by (simp add: cmd_join_def)
  next
    case d then show ?thesis using assms(1) by (simp add: cmd_join_def)
  next
    case e then show ?thesis using assms(1) by (simp add: cmd_join_def)
  qed
qed

lemma cmd_join_accepted:
  assumes "map_of (games b) ch = Some game"
    and "\<not> (status game = ''complete'' \<or> status game = ''pending'' \<or> in_other_game b user ch
           \<or> \<not> slot_is_open game \<or> (status game = ''open'' \<and> Some user = player_a game))"
  shows "cmd_join env now user ch words b =
           (case given words of
               Some w \<Rightarrow>
                 if count_words w \<noteq> words_per_turn game
                 then (WordCountMismatch (words_per_turn game) (count_words w), b)
                 else if status game = ''open'' then
                   (let game1 = add_contribution now user w
                                  (game\<lparr>player_b := Some user, status := ''active''\<rparr>);
                        b1 = b\<lparr>games := AList.update ch game1 (games b),
                               player_games := (player_games b)(user \<mapsto> ch),
                               db := save_game env game1 (db b)\<rparr>
                    in (Joined, finish_turn env game1 b1))
                 else
                   (let game1 = add_contribution now user w (take_slot user game);
                        b1 = b\<lparr>games := AList.update ch game1 (games b),
                               player_games := (player_games b)(user \<mapsto> ch),
                               db := save_game env game1 (db b)\<rparr>
                    in (TakesOver, finish_turn env game1 b1))
             | None \<Rightarrow>
                 (let game1 = (if status game = ''open''
                               then game\<lparr>player_b := Some user, status := ''active''\<rparr>
                               else take_slot user game)
                  in (JoinedCheckDMs,
                      b\<lparr>games := AList.update ch game1 (games b),
                        player_games := (player_games b)(user \<mapsto> ch),
                        pending_responses := (pending_responses b)(user \<mapsto> ch),
                        db := save_game env game1 (db b)\<rparr>)))"
  using assms by (simp add: cmd_join_def)

lemma given_Some: "given words = Some w \<Longrightarrow> words = Some w"
  by (cases words) (auto split: if_splits)

lemma cmd_join_game:
  assumes "map_of (games (snd (cmd_join env now user ch words b))) k = Some g'"
  shows "\<exists>g. map_of (games b) k = Some g
            \<and> evolved user (case words of None \<Rightarrow> [] | Some w \<Rightarrow> w) g g'"
proof (cases "map_of (games b) ch")
  case None
  then have "snd (cmd_join env now user ch words b) = b"
    by (simp add: cmd_join_def)
  then show ?thesis using assms by (simp add: evolved_refl)
next
  case (Some game)
  note game = Some
  show ?thesis
  proof (cases "status game = ''complete'' \<or> status game = ''pending'' \<or> in_other_game b user ch
                  \<or> \<not> slot_is_open game \<or> (status game = ''open'' \<and> Some user = player_a game)")
    case True
    then show ?thesis
      using assms cmd_join_rejected [OF game True] by (simp add: evolved_refl)
  next
    case False
    note eq = cmd_join_accepted [OF game False, of env now words]
    show ?thesis
    proof (cases "given words")
      case None
      define game1 where "game1 = (if status game = ''open''
                               then game\<lparr>player_b := Some user, status := ''active''\<rparr>
                               else take_slot user game)"
      have ev: "evolved user w game game1" for w
        by (simp add: game1_def evolved_def take_slot_def)
      have "games (snd (cmd_join env now user ch words b)) = AList.update ch game1 (games b)"
        by (simp add: eq None Let_def game1_def)
      then have "map_of (AList.update ch game1 (games b)) k = Some g'"
        using assms by simp
      then show ?thesis
        using ev game by (auto simp: update_conv' evolved_refl split: if_splits)
    next
      case (Some w)
      then have words: "words = Some w" by (rule given_Some)
      show ?thesis
      proof (cases "count_words w = words_per_turn game")
        case False
        then have "snd (cmd_join env now user ch words b) = b"
          by (simp add: eq Some)
        then show ?thesis using assms by (simp add: evolved_refl)
      next
        case True
        define game1 where "game1 = (if status game = ''open''
            then add_contribution now user w (game\<lparr>player_b := Some user, status := ''active''\<rparr>)
            else add_contribution now user w (take_slot user game))"
        have ev: "evolved user w game game1"
          unfolding game1_def by (auto intro!: evolved_add simp: take_slot_def)
        let ?b1 = "b\<lparr>games := AList.update ch game1 (games b),
                      player_games := (player_games b)(user \<mapsto> ch),
                      db := save_game env game1 (db b)\<rparr>"
        have s: "snd (cmd_join env now user ch words b) = finish_turn env game1 ?b1"
          by (simp add: eq Some True Let_def game1_def)
        have "map_of (games (finish_turn env game1 ?b1)) k = Some g'"
          using assms by (simp only: s)
        then have "map_of (games ?b1) k = Some g'"
          by (rule finish_turn_games)
        then have "map_of (AList.update ch game1 (games b)) k = Some g'"
          by simp
        then show ?thesis
          using ev game words
          by (auto simp: update_conv' evolved_refl split: if_splits)
      qed
    qed
  qed
qed

lemma cmd_abandon_game:
  assumes "map_of (games (snd (cmd_abandon env user b))) k = Some g'"
  shows "\<exists>g. map_of (games b) k = Some g \<and> evolved u w g g'"
proof (cases "player_games b user")
  case None
  then have "snd (cmd_abandon env user b) = b" by (simp add: cmd_abandon_def)
  then show ?thesis using assms by (simp add: evolved_refl)
next
  case (Some ch)
  note bound = Some
  show ?thesis
  proof (cases "map_of (games b) ch")
    case None
    then have "games (snd (cmd_abandon env user b)) = games b"
      using bound by (simp add: cmd_abandon_def)
    then show ?thesis using assms by (simp add: evolved_refl)
  next
    case (Some game)
    have ev: "evolved u w game (leave_slots user game)"
      by (simp add: evolved_def leave_slots_def Let_def)
    have "games (snd (cmd_abandon env user b)) = AList.update ch (leave_slots user game) (games b)"
      using bound Some by (simp add: cmd_abandon_def Let_def)
    then have "map_of (AList.update ch (leave_slots user game) (games b)) k = Some g'"
      using assms by simp
    then show ?thesis
      using ev Some by (auto simp: update_conv' evolved_refl split: if_splits)
  qed
qed

lemma on_message_routed:
  assumes "\<not> author_bot msg" and "\<not> in_guild msg"
    and "pending_responses b (author_id msg) = Some ch"
    and "map_of (games b) ch = Some game"
  shows "on_message env now msg b =
           (let words = strip (content msg) in
                   if count_words words \<noteq> words_per_turn game
                   then (WordCountMismatch (words_per_turn game) (count_words words), b)
                   else if status game = ''pending'' then
                     (let game1 = game\<lparr>first_words := words, contributions := [words],
                                       contributors := [author_id msg], status := ''open'',
                                       last_activity := now\<rparr>
                      in (LockedIn,
                          b\<lparr>pending_responses := (pending_responses b)(author_id msg := None),
                            games := AList.update ch game1 (games b),
                            db := save_game env game1 (db b)\<rparr>))
                   else if current_player game \<noteq> Some (author_id msg) then
                     (NoPendingTurnNow,
                      b\<lparr>pending_responses := (pending_responses b)(author_id msg := None)\<rparr>)
                   else
                     (let game1 = add_contribution now (author_id msg) words game;
                          b1 = b\<lparr>pending_responses :=
                                   (pending_responses b)(author_id msg := None),
                                 games := AList.update ch game1 (games b),
                                 db := save_game env game1 (db b)\<rparr>
                      in (Received, finish_turn env game1 b1)))"
  using assms by (simp add: on_message_def)

lemma on_message_unrouted:
  assumes "author_bot msg \<or> in_guild msg \<or> pending_responses b (author_id msg) = None
             \<or> (\<exists>ch. pending_responses b (author_id msg) = Some ch \<and> map_of (games b) ch = None)"
  shows "games (snd (on_message env now msg b)) = games b"
  using assms by (auto simp: on_message_def)

lemma on_message_game:
  assumes "map_of (games (snd (on_message env now msg b))) k = Some g'"
  shows "\<exists>g. map_of (games b) k = Some g
            \<and> evolved (author_id msg) (strip (content msg)) g g'"
proof (cases "author_bot msg \<or> in_guild msg \<or> pending_responses b (author_id msg) = None
             \<or> (\<exists>ch. pending_responses b (author_id msg) = Some ch \<and> map_of (games b) ch = None)")
  case True
  then show ?thesis
    using assms on_message_unrouted [OF True] by (simp add: evolved_refl)
next
  case False
  then obtain ch game where dm: "\<not> author_bot msg" "\<not> in_guild msg"
    and mark: "pending_responses b (author_id msg) = Some ch"
    and game: "map_of (games b) ch = Some game"
    by auto
  note eq = on_message_routed [OF dm mark game, of env now]
  let ?w = "strip (content msg)"
  consider (mismatch) "count_words ?w \<noteq> words_per_turn game"
    | (pending) "count_words ?w = words_per_turn game" "status game = ''pending''"
    | (stale) "count_words ?w = words_per_turn game" "status game \<noteq> ''pending''"
        "current_player game \<noteq> Some (author_id msg)"
    | (accept) "count_words ?w = words_per_turn game" "status game \<noteq> ''pending''"
        "current_player game = Some (author_id msg)"
    by blast
  then show ?thesis
  proof cases
    case mismatch
    then have "games (snd (on_message env now msg b)) = games b"
      by (simp add: eq Let_def)
    then show ?thesis using assms by (simp add: evolved_refl)
  next
    case pending
    define game1 where "game1 = game\<lparr>first_words := ?w, contributions := [?w],
        contributors := [author_id msg], status := ''open'', last_activity := now\<rparr>"
    have ev: "evolved (author_id msg) ?w game game1"
      using pending by (simp add: evolved_def game1_def)
    have "games (snd (on_message env now msg b)) = AList.update ch game1 (games b)"
      using pending by (simp add: eq Let_def game1_def)
    then have "map_of (AList.update ch game1 (games b)) k = Some g'"
      using assms by simp
    then show ?thesis
      using ev game by (auto simp: update_conv' evolved_refl split: if_splits)
  next
    case stale
    then have "games (snd (on_message env now msg b)) = games b"
      by (simp add: eq Let_def)
    then show ?thesis using assms by (simp add: evolved_refl)
  next
    case accept
    define game1 where "game1 = add_contribution now (author_id msg) ?w game"
    have ev: "evolved (author_id msg) ?w game game1"
      unfolding game1_def by (auto intro!: evolved_add)
    let ?b1 = "b\<lparr>pending_responses := (pending_responses b)(author_id msg := None),
                  games := AList.update ch game1 (games b),
                  db := save_game env game1 (db b)\<rparr>"
    have s: "snd (on_message env now msg b) = finish_turn env game1 ?b1"
      using accept by (simp add: eq Let_def game1_def)
    have "map_of (games (finish_turn env game1 ?b1)) k = Some g'"
      using assms by (simp only: s)
    then have "map_of (games ?b1) k = Some g'"
      by (rule finish_turn_games)
    then have "map_of (AList.update ch game1 (games b)) k = Some g'"
      by simp
    then show ?thesis
      using ev game by (auto simp: update_conv' evolved_refl split: if_splits)
  qed
qed

lemma evolved_swept: "evolved u w g (swept now' g)"
  by (simp add: evolved_def swept_def timeout_current_player_def)

lemma step_game:
  assumes "map_of (games (step env now ev b)) k = Some g'"
  shows "fresh (actor ev) (submitted ev) g'
       \<or> (\<exists>g. map_of (games b) k = Some g \<and> evolved (actor ev) (submitted ev) g g')"
proof (cases ev)
  case (Start user ch words lines wordcount)
  then show ?thesis
    using assms cmd_start_game [of env now user ch words lines wordcount b k g']
    by (auto simp: evolved_refl)
next
  case (Join user ch words)
  then show ?thesis
    using assms cmd_join_game [of env now user ch words b k g'] by simp
next
  case (Status user ch)
  have "snd (cmd_status user ch b) = b"
    by (simp add: cmd_status_def split: option.splits)
  then show ?thesis using assms Status by (simp add: evolved_refl)
next
  case (Abandon user)
  then show ?thesis
    using assms cmd_abandon_game [of env user b k g'] by simp
next
  case (Message msg)
  then show ?thesis
    using assms on_message_game [of env now msg b k g'] by simp
next
  case Sweep
  then have "map_of (games (snd (timeout_checker env now b))) k = Some g'"
    using assms by simp
  then have "map_of (games b) k = Some g'
           \<or> (\<exists>g. map_of (games b) k = Some g \<and> g' = swept now g)"
    using timeout_checker_games [of env now b k] by (cases "map_of (games b) k") auto
  then show ?thesis
    by (auto simp: evolved_swept evolved_refl)
qed

lemma add_contribution_status:
  "(status (add_contribution now u w g0) = ''complete'')
     = (status g0 = ''complete'' \<or> total_turns g0 \<le> current_turn g0 + 1)"
  by (simp add: add_contribution_def total_turns_def Let_def)

lemma join_example:
  "cmd_join sample_env 7 20 1 (Some (str ''g h i j k l''))
     (bot_with (Game_init 3 1 10 (str ''a b c d e f'') 6 4 False) [10 \<mapsto> 1] Map.empty)
   = (Joined, bot_with ((Game_init 3 1 10 (str ''a b c d e f'') 6 4 False)
                 \<lparr>contributions := [(str ''a b c d e f''), (str ''g h i j k l'')], contributors := [10, 20],
                  player_b := Some 20, status := ''active'', last_activity := 7,
                  current_turn := 2\<rparr>)
       [10 \<mapsto> 1, 20 \<mapsto> 1] [10 \<mapsto> 1])"
  by (simp add: bot_with_def Game_init_def cmd_join_def example_word_counts example_texts slot_is_open_def
      in_other_game_def Let_def add_contribution_def total_turns_def finish_turn_def
      prompt_next_player_def current_player_def sample_env_def save_game_def row_of_def
      fun_upd_twist)

text \<open>
  C1.  Suppose that in every session of positive \<open>total_lines\<close> the status is \<^verbatim>\<open>complete\<close>
  exactly when \<open>current_turn \<ge> total_lines * 2\<close>.  Then the same holds after any step
  (start, join, status, abandon, a message, a run of the timeout monitor).
  \<^verbatim>\<open>add_contribution\<close> sets the status to \<^verbatim>\<open>complete\<close> exactly when the incremented turn
  reaches \<open>total_turns\<close>, and never unsets it.  And a session that is complete
  after a step either was complete before it, or received a contribution in that step
  which brought its turn counter to \<open>total_turns\<close>: nothing else completes a session.
\<close>

theorem complete_iff_last_turn:
  assumes "\<forall>ch g. map_of (games b) ch = Some g \<and> 0 < total_lines g \<longrightarrow>
             (status g = ''complete'') = (total_lines g * 2 \<le> current_turn g)"
  shows "(\<forall>ch g'. map_of (games (step env now ev b)) ch = Some g' \<and> 0 < total_lines g' \<longrightarrow>
             (status g' = ''complete'') = (total_lines g' * 2 \<le> current_turn g'))
       \<and> (status (add_contribution now u w g0) = ''complete'')
           = (status g0 = ''complete'' \<or> total_turns g0 \<le> current_turn g0 + 1)
       \<and> (\<forall>ch g'. map_of (games (step env now ev b)) ch = Some g' \<and> status g' = ''complete'' \<longrightarrow>
            (\<exists>g. map_of (games b) ch = Some g
                \<and> (status g = ''complete''
                   \<or> contributions g' = contributions g @ [submitted ev]
                     \<and> current_turn g' = current_turn g + 1
                     \<and> total_turns g' \<le> current_turn g')))"
proof (intro conjI allI impI)
  fix ch g'
  assume a: "map_of (games (step env now ev b)) ch = Some g' \<and> 0 < total_lines g'"
  from step_game [of env now ev b ch g'] a
  consider (new) "fresh (actor ev) (submitted ev) g'"
    | (old) g where "map_of (games b) ch = Some g" "evolved (actor ev) (submitted ev) g g'"
    by blast
  then show "(status g' = ''complete'') = (total_lines g' * 2 \<le> current_turn g')"
  proof cases
    case new
    then show ?thesis using a by (auto simp: fresh_def)
  next
    case old
    then have "(status g = ''complete'') = (total_lines g * 2 \<le> current_turn g)"
      and "0 < total_lines g"
      using assms a by (auto simp: evolved_def)
    then show ?thesis
      using old(2) by (auto simp: evolved_def total_turns_def split: if_splits)
  qed
next
  show "(status (add_contribution now u w g0) = ''complete'')
           = (status g0 = ''complete'' \<or> total_turns g0 \<le> current_turn g0 + 1)"
    by (rule add_contribution_status)
next
  fix ch g'
  assume a: "map_of (games (step env now ev b)) ch = Some g' \<and> status g' = ''complete''"
  from step_game [of env now ev b ch g'] a
  consider (new) "fresh (actor ev) (submitted ev) g'"
    | (old) g where "map_of (games b) ch = Some g" "evolved (actor ev) (submitted ev) g g'"
    by blast
  then show "\<exists>g. map_of (games b) ch = Some g
                \<and> (status g = ''complete''
                   \<or> contributions g' = contributions g @ [submitted ev]
                     \<and> current_turn g' = current_turn g + 1
                     \<and> total_turns g' \<le> current_turn g')"
  proof cases
    case new
    then show ?thesis using a by (auto simp: fresh_def)
  next
    case old
    then show ?thesis
      using a by (auto simp: evolved_def split: if_splits)
  qed
qed

text \<open>In the first state of the run identity 20 joins with six words: the session is
  active at turn 2 of 8.  In a session of one line the same contribution is the last.\<close>

theorem complete_iff_last_turn_witness:
  "(let g = Game_init 3 1 10 (str ''a b c d e f'') 6 4 False;
        b = bot_with g [10 \<mapsto> 1] Map.empty;
        g' = g\<lparr>contributions := [(str ''a b c d e f''), (str ''g h i j k l'')], contributors := [10, 20],
                player_b := Some 20, status := ''active'', last_activity := 7,
                current_turn := 2\<rparr>;
        g1 = Game_init 3 1 10 (str ''a b c d e f'') 6 1 False
    in games b = [(1, g)] \<and> 0 < total_lines g \<and> status g \<noteq> ''complete''
     \<and> \<not> total_lines g * 2 \<le> current_turn g
     \<and> map_of (games (step sample_env 7 (Join 20 1 (Some (str ''g h i j k l''))) b)) 1 = Some g'
     \<and> 0 < total_lines g' \<and> status g' \<noteq> ''complete''
     \<and> \<not> total_lines g' * 2 \<le> current_turn g'
     \<and> status (add_contribution 7 20 (str ''g h i j k l'') g1) = ''complete''
     \<and> total_turns g1 \<le> current_turn g1 + 1)"
proof -
  let ?g = "Game_init 3 1 10 (str ''a b c d e f'') 6 4 False"
  let ?b = "bot_with ?g [10 \<mapsto> 1] Map.empty"
  have inv: "\<forall>ch g. map_of (games ?b) ch = Some g \<and> 0 < total_lines g \<longrightarrow>
             (status g = ''complete'') = (total_lines g * 2 \<le> current_turn g)"
    by (simp add: bot_with_def Game_init_def)
  note inst = complete_iff_last_turn [OF inv, where env = sample_env and now = 7
      and ev = "Join 20 1 (Some (str ''g h i j k l''))" and u = 20 and w = "(str ''g h i j k l'')"
      and ?g0.0 = "Game_init 3 1 10 (str ''a b c d e f'') 6 1 False"]
  show ?thesis
    using inst
    by (simp add: join_example Let_def) (simp add: bot_with_def Game_init_def total_turns_def)
qed

text \<open>
  C5.  Suppose the two lists of every session have the same length.  Then after any step
  they still have, in every session; and position by position the pairs of a contribution
  and its contributor are those the session had before the step, or those followed by the
  pair of the text this event submitted and the identity that submitted it, or that pair
  alone (the first words: of a new session, or of a pending one), or none (a session
  created pending).
\<close>

theorem contributions_parallel:
  assumes "\<forall>ch g. map_of (games b) ch = Some g \<longrightarrow>
             length (contributions g) = length (contributors g)"
  shows "\<forall>ch g'. map_of (games (step env now ev b)) ch = Some g' \<longrightarrow>
           length (contributions g') = length (contributors g')
         \<and> (let old = (case map_of (games b) ch of None \<Rightarrow> []
                       | Some g \<Rightarrow> zip (contributions g) (contributors g))
            in zip (contributions g') (contributors g')
                 \<in> {old, old @ [(submitted ev, actor ev)], [(submitted ev, actor ev)], []})"
proof (intro allI impI)
  fix ch g'
  assume a: "map_of (games (step env now ev b)) ch = Some g'"
  from step_game [OF a]
  consider (new) "fresh (actor ev) (submitted ev) g'"
    | (old) g where "map_of (games b) ch = Some g" "evolved (actor ev) (submitted ev) g g'"
    by blast
  then show "length (contributions g') = length (contributors g')
         \<and> (let old = (case map_of (games b) ch of None \<Rightarrow> []
                       | Some g \<Rightarrow> zip (contributions g) (contributors g))
            in zip (contributions g') (contributors g')
                 \<in> {old, old @ [(submitted ev, actor ev)], [(submitted ev, actor ev)], []})"
  proof cases
    case new
    then show ?thesis by (auto simp: fresh_def Let_def)
  next
    case old
    then have len: "length (contributions g) = length (contributors g)"
      using assms by blast
    show ?thesis
      using old len by (auto simp: evolved_def Let_def)
  qed
qed

text \<open>The same join: the pair of the six words and identity 20 follows the pair of the
  first words and identity 10.\<close>

theorem contributions_parallel_witness:
  "(let g = Game_init 3 1 10 (str ''a b c d e f'') 6 4 False;
        b = bot_with g [10 \<mapsto> 1] Map.empty;
        ev = Join 20 1 (Some (str ''g h i j k l''));
        g' = the (map_of (games (step sample_env 7 ev b)) 1)
    in games b = [(1, g)]
     \<and> length (contributions g) = length (contributors g)
     \<and> map_of (games (step sample_env 7 ev b)) 1 \<noteq> None
     \<and> contributions g' = [(str ''a b c d e f''), (str ''g h i j k l'')]
     \<and> contributors g' = [10, 20]
     \<and> zip (contributions g') (contributors g')
         = zip (contributions g) (contributors g) @ [(submitted ev, actor ev)])"
proof -
  let ?g = "Game_init 3 1 10 (str ''a b c d e f'') 6 4 False"
  let ?b = "bot_with ?g [10 \<mapsto> 1] Map.empty"
  have inv: "\<forall>ch g. map_of (games ?b) ch = Some g \<longrightarrow>
             length (contributions g) = length (contributors g)"
    by (simp add: bot_with_def Game_init_def)
  note inst = contributions_parallel [OF inv, where env = sample_env and now = 7
      and ev = "Join 20 1 (Some (str ''g h i j k l''))"]
  show ?thesis
    using inst
    by (simp add: join_example Let_def) (simp add: bot_with_def Game_init_def)
qed

end
